theory Spec2Isabelle
  imports Complex_Main "HOL-Library.Word"
begin

section \<open>Python values used by the bot\<close>

text \<open>
  \<open>str(n)\<close> for a Python integer, as the f-strings of \<open>plugins/system/auth.py\<close> use it
  for chat and user identifiers: the decimal digits, with a leading minus sign for a
  negative number.
\<close>

definition digit_char :: "nat \<Rightarrow> char" where
  "digit_char d = ''0123456789'' ! d"

function digits :: "nat \<Rightarrow> string" where
  "digits n = (if n < 10 then [digit_char n] else digits (n div 10) @ [digit_char (n mod 10)])"
  by pat_completeness auto
termination
  by lexicographic_order

declare digits.simps [simp del]

definition str_int :: "int \<Rightarrow> string" where
  "str_int i = (if i < 0 then CHR ''-'' # digits (nat (- i)) else digits (nat i))"

text \<open>\<open>sub in s\<close> on Python strings: \<open>sub\<close> occurs in \<open>s\<close> as a contiguous piece.\<close>

fun starts_with :: "string \<Rightarrow> string \<Rightarrow> bool" where
  "starts_with [] s = True"
| "starts_with (c # cs) [] = False"
| "starts_with (c # cs) (d # ds) = (c = d \<and> starts_with cs ds)"

fun str_contains :: "string \<Rightarrow> string \<Rightarrow> bool" where
  "str_contains sub [] = (sub = [])"
| "str_contains sub (c # cs) = (starts_with sub (c # cs) \<or> str_contains sub cs)"

text \<open>\<open>s.split("|")\<close>: the fields between the separators; never an empty list.\<close>

fun split_pipe :: "string \<Rightarrow> string list" where
  "split_pipe [] = [[]]"
| "split_pipe (c # cs) =
     (if c = CHR ''|'' then [] # split_pipe cs
      else (case split_pipe cs of
              [] \<Rightarrow> [[c]]
            | f # fs \<Rightarrow> (c # f) # fs))"

text \<open>
  The exceptions the handlers meet. \<open>BadRequest\<close> is the only class the source catches;
  \<open>OtherError\<close> stands for every other exception of the bot client, which no handler
  catches. \<open>IndexError\<close> and \<open>ValueError\<close> come from \<open>_data[i]\<close> and \<open>int(...)\<close>.
\<close>

datatype error = BadRequest string | OtherError string | IndexError | ValueError

text \<open>
  Subscription \<open>xs[i]\<close> of a Python list. An index from \<open>-len(xs)\<close> up to \<open>-1\<close>
  addresses the list from its end; outside \<open>-len(xs) \<le> i < len(xs)\<close> it is an
  \<open>IndexError\<close>.
\<close>

definition py_index :: "'a list \<Rightarrow> int \<Rightarrow> error + 'a" where
  "py_index xs i =
     (if 0 \<le> i \<and> i < int (length xs) then Inr (xs ! nat i)
      else if i < 0 \<and> - int (length xs) \<le> i then Inr (xs ! nat (int (length xs) + i))
      else Inl IndexError)"

text \<open>\<open>int(x)\<close> for a Python float: truncation towards zero.\<close>

definition int_of_float :: "real \<Rightarrow> int" where
  "int_of_float x = (if 0 \<le> x then \<lfloor>x\<rfloor> else \<lceil>x\<rceil>)"

section \<open>Telegram objects\<close>

record user =
  uid :: int
  is_bot :: bool
  full_name :: string

record chat =
  cid :: int
  title :: string

record message =
  message_id :: int
  msg_chat :: chat
  from_user :: user
  new_chat_members :: "user list"

record callback_query =
  cq_id :: string
  cq_from_user :: user
  cq_message :: message
  cq_data :: string

record ChatMember =
  cm_user :: user

record ChatPermissions =
  can_send_messages :: "bool option"
  can_send_media_messages :: "bool option"
  can_send_polls :: "bool option"
  can_send_other_messages :: "bool option"
  can_add_web_page_previews :: "bool option"
  can_change_info :: "bool option"
  can_invite_users :: "bool option"
  can_pin_messages :: "bool option"

definition FullChatPermissions :: ChatPermissions where
  "FullChatPermissions =
     \<lparr>can_send_messages = Some True, can_send_media_messages = Some True,
      can_send_polls = Some True, can_send_other_messages = Some True,
      can_add_web_page_previews = Some True, can_change_info = Some True,
      can_invite_users = Some True, can_pin_messages = Some True\<rparr>"

text \<open>\<open>ChatPermissions(can_send_messages=False)\<close>: every other field stays unset.\<close>

definition ReadOnlyChatPermissions :: ChatPermissions where
  "ReadOnlyChatPermissions =
     \<lparr>can_send_messages = Some False, can_send_media_messages = None,
      can_send_polls = None, can_send_other_messages = None,
      can_add_web_page_previews = None, can_change_info = None,
      can_invite_users = None, can_pin_messages = None\<rparr>"

text \<open>
  The texts of the source are Chinese string literals. Each literal is one constructor,
  carrying the values the f-string interpolates; the comments give the place of the
  literal in \<open>auth.py\<close>.
\<close>

datatype msg_text =
    NotAdminAlert                          \<comment> \<open>admin, line 112: you are not an administrator\<close>
  | PassToast                              \<comment> \<open>admin, line 125\<close>
  | KickToast                              \<comment> \<open>admin, line 133\<close>
  | UnbanToast                             \<comment> \<open>admin, line 139\<close>
  | AdminPassedText string string          \<comment> \<open>admin, line 129: user_info, mention of the admin\<close>
  | AdminKickedText string string          \<comment> \<open>admin, line 135\<close>
  | AdminUnbannedText string string        \<comment> \<open>admin, line 143\<close>
  | WrongMessageNotice                     \<comment> \<open>admin, line 148: received a wrong message\<close>
  | NotYourVerificationAlert               \<comment> \<open>query, line 175: this is not your verification\<close>
  | VerifySuccessToast                     \<comment> \<open>query, line 181\<close>
  | VerifyFailedAlert int                  \<comment> \<open>query, line 192: retry after time_out seconds\<close>
  | VerifySuccessText string string string \<comment> \<open>query, line 185: mention, question, answer\<close>
  | VerifyFailedText string string string  \<comment> \<open>query, line 195: mention, question, answer\<close>
  | AdminInviteNotice                      \<comment> \<open>new_mem, line 222: invited by an administrator, passed\<close>
  | NoQuestionsNotice                      \<comment> \<open>new_mem, line 229: no question list yet\<close>
  | ChallengeText string int               \<comment> \<open>new_mem, line 268: question, time_out\<close>
  | ForgotYouNotice                        \<comment> \<open>new_mem, line 277: leave and join again\<close>

datatype label = AnswerLabel string | PassLabel | KickLabel | UnbanLabel

record InlineKeyboardButton =
  button_label :: label
  callback_data :: string

type_synonym InlineKeyboardMarkup = "InlineKeyboardButton list list"

section \<open>The bot client, the scheduler and the quiz service\<close>

text \<open>
  Every call of the bot client that returned, in the order the handlers made it.
  \<open>edit_text\<close> and the replies go to the chat and message of the update.
\<close>

datatype bot_call =
    GetChatAdministrators int
  | GetChatMember int int
  | RestrictChatMember int int ChatPermissions
  | BanChatMember int int "int option"       \<comment> \<open>chat, user, until_date\<close>
  | AnswerCallbackQuery string msg_text bool     \<comment> \<open>query id, text, show_alert\<close>
  | EditMessageText int int msg_text "InlineKeyboardMarkup option"
  | SendMessage int msg_text
  | ReplyText int int msg_text                   \<comment> \<open>chat, message replied to, text\<close>
  | ReplyMarkdownV2 int int msg_text InlineKeyboardMarkup

datatype job_callback = kick_member_job | clean_message_job

record job =
  job_run :: job_callback
  job_when :: int
  job_name :: string
  job_chat_id :: int
  job_user_id :: int
  job_data :: "int option"

record answer =
  answer_id :: int
  answer_text :: string
  is_correct :: bool

record question =
  question_id :: int
  question_text :: string
  answers :: "answer list"

text \<open>
  What the collaborators outside \<open>auth.py\<close> answer. The bot client either raises
  (\<open>raised_by\<close>) or returns; the clock is the sequence of values that successive calls
  of \<open>time.time()\<close> return. A Python float is the real number it stands for;
  floats are compared exactly, and \<open>float_add\<close> is their addition, which rounds the
  sum to a float. \<open>to_int\<close> is Python's \<open>int(str)\<close>, \<open>None\<close> for a \<open>ValueError\<close>;
  \<open>quiz_refresh_raises n\<close> is the exception of the \<open>n\<close>-th call of
  \<open>QuizService.refresh_quiz\<close>, if it raises. The lookups of the quiz service
  (\<open>get_question_id_list\<close>, \<open>get_question\<close>, \<open>get_answer\<close>) always answer, and
  answer the same during one run of a handler; \<open>random_index\<close> is \<open>MT19937_Random.random\<close>
  and \<open>shuffle\<close> is \<open>random.shuffle\<close>.
\<close>

record env =
  bot_id :: int
  time_at :: "nat \<Rightarrow> real"
  float_add :: "real \<Rightarrow> real \<Rightarrow> real"
  raised_by :: "bot_call \<Rightarrow> error option"
  administrators_of :: "int \<Rightarrow> ChatMember list"
  member_of :: "int \<Rightarrow> int \<Rightarrow> ChatMember"
  sent_message_id :: "bot_call \<Rightarrow> int"
  to_int :: "string \<Rightarrow> int option"
  mention_markdown_v2 :: "user \<Rightarrow> string"
  escape_markdown :: "string \<Rightarrow> string"
  quiz_refresh_raises :: "nat \<Rightarrow> error option"
  question_id_list :: "int list"
  get_question :: "int \<Rightarrow> question"
  get_answer :: "int \<Rightarrow> answer"
  random_index :: "int \<Rightarrow> int \<Rightarrow> int"
  shuffle :: "InlineKeyboardMarkup \<Rightarrow> InlineKeyboardMarkup"

text \<open>
  The state the handlers change: the calls made so far, the scheduler's registry of jobs
  by job id, \<open>context.chat_data\<close> of every chat, and the fields of
  \<open>GroupJoiningVerification\<close>. \<open>quiz_refresh_calls\<close> counts the calls of
  \<open>QuizService.refresh_quiz\<close>, \<open>clock_reads\<close> the calls of \<open>time.time()\<close>.
\<close>

record world =
  calls :: "bot_call list"
  jobs :: "string \<rightharpoonup> job"
  chat_data :: "int \<Rightarrow> string \<rightharpoonup> bool"
  chat_administrators_cache :: "string \<rightharpoonup> real \<times> ChatMember list"
  is_refresh_quiz :: bool
  quiz_refresh_calls :: nat
  clock_reads :: nat

definition time_out :: int where
  "time_out = 120"

definition kick_time :: int where
  "kick_time = 120"

section \<open>Coroutines as state transformers\<close>

text \<open>
  A coroutine of the source is a function from the state to a result and the state it
  leaves: \<open>Inl\<close> an exception that left it, \<open>Inr\<close> the value it returned. What was
  changed before an exception stays changed. The lock of the source lets the bodies of
  \<open>refresh_quiz\<close> and \<open>get_chat_administrators\<close> run without another holder of the
  lock in between; here every handler runs from start to end without another handler
  in between.
\<close>

type_synonym 'a action = "world \<Rightarrow> (error + 'a) \<times> world"

definition returns :: "'a \<Rightarrow> 'a action" where
  "returns x w = (Inr x, w)"

definition raises :: "error \<Rightarrow> 'a action" where
  "raises err w = (Inl err, w)"

definition andThen :: "'a action \<Rightarrow> ('a \<Rightarrow> 'b action) \<Rightarrow> 'b action" where
  "andThen m k w = (case m w of (Inl err, w') \<Rightarrow> (Inl err, w') | (Inr x, w') \<Rightarrow> k x w')"

text \<open>\<open>try: m except BadRequest as err: h\<close>; any other exception passes through.\<close>

definition except_BadRequest :: "'a action \<Rightarrow> (string \<Rightarrow> 'a action) \<Rightarrow> 'a action" where
  "except_BadRequest m h w =
     (case m w of
        (Inl (BadRequest err), w') \<Rightarrow> h err w'
      | (Inl other, w') \<Rightarrow> (Inl other, w')
      | (Inr x, w') \<Rightarrow> (Inr x, w'))"

definition call_bot :: "env \<Rightarrow> bot_call \<Rightarrow> unit action" where
  "call_bot e c w =
     (case raised_by e c of
        Some err \<Rightarrow> (Inl err, w)
      | None \<Rightarrow> (Inr (), w\<lparr>calls := calls w @ [c]\<rparr>))"

definition time_time :: "env \<Rightarrow> real action" where
  "time_time e w = (Inr (time_at e (clock_reads w)), w\<lparr>clock_reads := Suc (clock_reads w)\<rparr>)"

text \<open>
  \<open>job_queue.run_once(..., job_kwargs={"replace_existing": True, "id": job_id})\<close>: the
  scheduler keeps one job for each id, and a job added under an id in use replaces the
  job that was there.
\<close>

definition run_once :: "string \<Rightarrow> job \<Rightarrow> unit action" where
  "run_once job_id j w = (Inr (), w\<lparr>jobs := (jobs w)(job_id \<mapsto> j)\<rparr>)"

text \<open>\<open>if schedule := scheduler.get_job(job_id): schedule.remove()\<close>\<close>

definition remove_job :: "string \<Rightarrow> unit action" where
  "remove_job job_id w =
     (case jobs w job_id of
        Some schedule \<Rightarrow> (Inr (), w\<lparr>jobs := (jobs w)(job_id := None)\<rparr>)
      | None \<Rightarrow> (Inr (), w))"

text \<open>The f-string \<open>f"{chat.id}|{user.id}|kind"\<close> of the job names and ids.\<close>

definition job_key :: "int \<Rightarrow> int \<Rightarrow> string \<Rightarrow> string" where
  "job_key chat_id user_id kind = str_int chat_id @ ''|'' @ str_int user_id @ ''|'' @ kind"

section \<open>GroupJoiningVerification\<close>

text \<open>
  The methods of the class, in the order of the source. A handler is given the
  \<open>callback_query\<close> or the \<open>message\<close> of its update. The calls of \<open>Log\<close> leave no
  trace here, and of the two job callbacks only the names are needed.
\<close>

definition quiz_service_refresh_quiz :: "env \<Rightarrow> unit action" where
  "quiz_service_refresh_quiz e w =
     (case quiz_refresh_raises e (quiz_refresh_calls w) of
        Some err \<Rightarrow> (Inl err, w\<lparr>quiz_refresh_calls := Suc (quiz_refresh_calls w)\<rparr>)
      | None \<Rightarrow> (Inr (), w\<lparr>quiz_refresh_calls := Suc (quiz_refresh_calls w)\<rparr>))"

definition refresh_quiz :: "env \<Rightarrow> unit action" where
  "refresh_quiz e w =
     (if \<not> is_refresh_quiz w
      then andThen (quiz_service_refresh_quiz e)
             (\<lambda>_ w'. (Inr (), w'\<lparr>is_refresh_quiz := True\<rparr>)) w
      else (Inr (), w))"

text \<open>Lines 55 to 57 of \<open>get_chat_administrators\<close>, reached from two places.\<close>

definition fetch_chat_administrators :: "env \<Rightarrow> int \<Rightarrow> ChatMember list action" where
  "fetch_chat_administrators e chat_id =
     andThen (call_bot e (GetChatAdministrators chat_id)) (\<lambda>_.
     andThen (time_time e) (\<lambda>now w.
       (Inr (administrators_of e chat_id),
        w\<lparr>chat_administrators_cache :=
             (chat_administrators_cache w)
               (str_int chat_id \<mapsto> (now, administrators_of e chat_id))\<rparr>)))"

definition get_chat_administrators :: "env \<Rightarrow> int \<Rightarrow> ChatMember list action" where
  "get_chat_administrators e chat_id w =
     (case chat_administrators_cache w (str_int chat_id) of
        Some (cache_time, chat_administrators) \<Rightarrow>
          andThen (time_time e) (\<lambda>now.
            if now \<ge> float_add e cache_time 360 then returns chat_administrators
            else fetch_chat_administrators e chat_id) w
      | None \<Rightarrow> fetch_chat_administrators e chat_id w)"

definition is_admin :: "ChatMember list \<Rightarrow> int \<Rightarrow> bool" where
  "is_admin chat_administrators user_id =
     list_ex (\<lambda>admin. uid (cm_user admin) = user_id) chat_administrators"

definition restore_member :: "env \<Rightarrow> int \<Rightarrow> int \<Rightarrow> unit action" where
  "restore_member e chat_id user_id =
     except_BadRequest (call_bot e (RestrictChatMember chat_id user_id FullChatPermissions))
       (\<lambda>err. returns ())"

text \<open>\<open>int(_data[i])\<close>\<close>

definition int_field :: "env \<Rightarrow> string list \<Rightarrow> int \<Rightarrow> int action" where
  "int_field e parts i =
     (case py_index parts i of
        Inl err \<Rightarrow> raises err
      | Inr s \<Rightarrow> (case to_int e s of None \<Rightarrow> raises ValueError | Some n \<Rightarrow> returns n))"

subsection \<open>The admin-decision handler\<close>

definition admin_callback :: "env \<Rightarrow> string \<Rightarrow> (string \<times> int) action" where
  "admin_callback e callback_query_data =
     (let parts = split_pipe callback_query_data
      in case py_index parts 1 of
           Inl err \<Rightarrow> raises err
         | Inr result \<Rightarrow> andThen (int_field e parts 2) (\<lambda>user_id. returns (result, user_id)))"

definition admin :: "env \<Rightarrow> callback_query \<Rightarrow> unit action" where
  "admin e callback_query =
     (let user = cq_from_user callback_query;
          message = cq_message callback_query;
          chat = msg_chat message
      in andThen (get_chat_administrators e (cid chat)) (\<lambda>chat_administrators.
         if \<not> is_admin chat_administrators (uid user)
         then call_bot e (AnswerCallbackQuery (cq_id callback_query) NotAdminAlert True)
         else
         andThen (admin_callback e (cq_data callback_query)) (\<lambda>(result, user_id).
         andThen (except_BadRequest
                    (andThen (call_bot e (GetChatMember (cid chat) user_id)) (\<lambda>_.
                       returns (mention_markdown_v2 e (cm_user (member_of e (cid chat) user_id)))))
                    (\<lambda>err. returns (str_int user_id))) (\<lambda>user_info.
         andThen
           (if result = ''pass'' then
              andThen (call_bot e (AnswerCallbackQuery (cq_id callback_query) PassToast False)) (\<lambda>_.
              andThen (restore_member e (cid chat) user_id) (\<lambda>_.
              andThen (remove_job (job_key (cid chat) user_id ''auth_clean_join_message'')) (\<lambda>_.
              call_bot e (EditMessageText (cid chat) (message_id message)
                       (AdminPassedText user_info (mention_markdown_v2 e user)) None))))
            else if result = ''kick'' then
              andThen (call_bot e (AnswerCallbackQuery (cq_id callback_query) KickToast False)) (\<lambda>_.
              andThen (call_bot e (BanChatMember (cid chat) user_id None)) (\<lambda>_.
              call_bot e (EditMessageText (cid chat) (message_id message)
                       (AdminKickedText user_info (mention_markdown_v2 e user)) None)))
            else if result = ''unban'' then
              andThen (call_bot e (AnswerCallbackQuery (cq_id callback_query) UnbanToast False)) (\<lambda>_.
              andThen (restore_member e (cid chat) user_id) (\<lambda>_.
              andThen (remove_job (job_key (cid chat) user_id ''auth_clean_join_message'')) (\<lambda>_.
              call_bot e (EditMessageText (cid chat) (message_id message)
                       (AdminUnbannedText user_info (mention_markdown_v2 e user)) None))))
            else call_bot e (SendMessage (cid chat) WrongMessageNotice)) (\<lambda>_.
         remove_job (job_key (cid chat) user_id ''auth_kick''))))))"

subsection \<open>The quiz-answer handler\<close>

definition query_callback :: "env \<Rightarrow> string \<Rightarrow> (int \<times> bool \<times> string \<times> string) action" where
  "query_callback e callback_query_data =
     (let parts = split_pipe callback_query_data
      in andThen (int_field e parts 1) (\<lambda>user_id.
         andThen (int_field e parts 2) (\<lambda>question_id.
         andThen (int_field e parts 3) (\<lambda>answer_id.
           let answer = get_answer e answer_id;
               question = get_question e question_id
           in returns (user_id, is_correct answer, question_text question, answer_text answer)))))"

definition kick_button :: "int \<Rightarrow> InlineKeyboardButton" where
  "kick_button user_id =
     \<lparr>button_label = KickLabel, callback_data = ''auth_admin|kick|'' @ str_int user_id\<rparr>"

definition unban_button :: "int \<Rightarrow> InlineKeyboardButton" where
  "unban_button user_id =
     \<lparr>button_label = UnbanLabel, callback_data = ''auth_admin|unban|'' @ str_int user_id\<rparr>"

definition pass_button :: "int \<Rightarrow> InlineKeyboardButton" where
  "pass_button user_id =
     \<lparr>button_label = PassLabel, callback_data = ''auth_admin|pass|'' @ str_int user_id\<rparr>"

definition query :: "env \<Rightarrow> callback_query \<Rightarrow> unit action" where
  "query e callback_query =
     (let user = cq_from_user callback_query;
          message = cq_message callback_query;
          chat = msg_chat message
      in andThen (query_callback e (cq_data callback_query)) (\<lambda>(user_id, result, question, answer).
         if uid user \<noteq> user_id
         then call_bot e (AnswerCallbackQuery (cq_id callback_query) NotYourVerificationAlert True)
         else
         andThen
           (if result then
              andThen (call_bot e (AnswerCallbackQuery (cq_id callback_query) VerifySuccessToast False)) (\<lambda>_.
              andThen (restore_member e (cid chat) user_id) (\<lambda>_.
              andThen (remove_job (job_key (cid chat) (uid user) ''auth_clean_join_message'')) (\<lambda>_.
              returns ([[kick_button (uid user)]],
                       VerifySuccessText (mention_markdown_v2 e user)
                         (escape_markdown e question) (escape_markdown e answer)))))
            else
              andThen (call_bot e (AnswerCallbackQuery (cq_id callback_query)
                                (VerifyFailedAlert time_out) True)) (\<lambda>_.
              andThen (time_time e) (\<lambda>now.
              andThen (call_bot e (BanChatMember (cid chat) user_id
                                (Some (int_of_float now + kick_time)))) (\<lambda>_.
              returns ([[kick_button (uid user), unban_button (uid user)]],
                       VerifyFailedText (mention_markdown_v2 e user)
                         (escape_markdown e question) (escape_markdown e answer))))))
           (\<lambda>(buttons, text).
         andThen (except_BadRequest
                    (call_bot e (EditMessageText (cid chat) (message_id message) text (Some buttons)))
                    (\<lambda>exc. if str_contains ''are exactly the same as '' exc then returns ()
                           else raises (BadRequest exc))) (\<lambda>_.
         remove_job (job_key (cid chat) (uid user) ''auth_kick'')))))"

subsection \<open>The new-member handler\<close>

definition answer_button :: "int \<Rightarrow> question \<Rightarrow> answer \<Rightarrow> InlineKeyboardButton" where
  "answer_button user_id question answer =
     \<lparr>button_label = AnswerLabel (answer_text answer),
      callback_data = ''auth_challenge|'' @ str_int user_id @ ''|''
        @ str_int (question_id question) @ ''|'' @ str_int (answer_id answer)\<rparr>"

text \<open>
  Lines 244 to 290: the body of the loop after the restriction went through. The three
  calls of \<open>run_once\<close> give three job names and, in \<open>job_kwargs\<close>, one and the same id.
\<close>

definition send_challenge :: "env \<Rightarrow> message \<Rightarrow> user \<Rightarrow> int list \<Rightarrow> unit action" where
  "send_challenge e message user question_ids =
     (let chat = msg_chat message;
          index = random_index e 0 (int (length question_ids))
      in case py_index question_ids index of
           Inl err \<Rightarrow> raises err
         | Inr chosen \<Rightarrow>
             (let question = get_question e chosen;
                  buttons = shuffle e (map (\<lambda>answer. [answer_button (uid user) question answer])
                                          (answers question))
                            @ [[pass_button (uid user), kick_button (uid user)]];
                  reply_message = ChallengeText (escape_markdown e (question_text question)) time_out;
                  sending = ReplyMarkdownV2 (cid chat) (message_id message) reply_message buttons
              in andThen (except_BadRequest (call_bot e sending)
                            (\<lambda>err. andThen (call_bot e (ReplyText (cid chat) (message_id message)
                                                      ForgotYouNotice))
                                     (\<lambda>_. raises (BadRequest err)))) (\<lambda>_.
                 andThen (run_once (job_key (cid chat) (uid user) ''auth_kick'')
                            \<lparr>job_run = kick_member_job, job_when = time_out,
                             job_name = job_key (cid chat) (uid user) ''auth_kick'',
                             job_chat_id = cid chat, job_user_id = uid user,
                             job_data = None\<rparr>) (\<lambda>_.
                 andThen (run_once (job_key (cid chat) (uid user) ''auth_kick'')
                            \<lparr>job_run = clean_message_job, job_when = time_out,
                             job_name = job_key (cid chat) (uid user) ''auth_clean_join_message'',
                             job_chat_id = cid chat, job_user_id = uid user,
                             job_data = Some (message_id message)\<rparr>) (\<lambda>_.
                 run_once (job_key (cid chat) (uid user) ''auth_kick'')
                   \<lparr>job_run = clean_message_job, job_when = time_out,
                    job_name = job_key (cid chat) (uid user) ''auth_clean_question_message'',
                    job_chat_id = cid chat, job_user_id = uid user,
                    job_data = Some (sent_message_id e sending)\<rparr>)))))"

text \<open>
  Lines 231 to 243: \<open>True\<close> when the member was restricted, \<open>False\<close> when the handler
  has to return because the bot lacks the rights.
\<close>

definition restrict_member :: "env \<Rightarrow> message \<Rightarrow> user \<Rightarrow> bool action" where
  "restrict_member e message user =
     except_BadRequest
       (andThen (call_bot e (RestrictChatMember (cid (msg_chat message)) (uid user)
                          ReadOnlyChatPermissions))
          (\<lambda>_. returns True))
       (\<lambda>err. if str_contains ''Not enough rights'' err
              then (\<lambda>w. (Inr False,
                     w\<lparr>chat_data := (chat_data w)
                          (cid (msg_chat message) :=
                             (chat_data w (cid (msg_chat message)))
                               (''not_enough_rights'' \<mapsto> True))\<rparr>))
              else raises (BadRequest err))"

text \<open>The loop of lines 224 to 290 over \<open>message.new_chat_members\<close>.\<close>

fun challenge_members :: "env \<Rightarrow> message \<Rightarrow> user list \<Rightarrow> unit action" where
  "challenge_members e message [] = returns ()"
| "challenge_members e message (user # users) =
     (if is_bot user then challenge_members e message users
      else if length (question_id_list e) = 0
      then call_bot e (ReplyText (cid (msg_chat message)) (message_id message) NoQuestionsNotice)
      else andThen (restrict_member e message user) (\<lambda>restricted.
             if \<not> restricted then returns ()
             else andThen (send_challenge e message user (question_id_list e))
                    (\<lambda>_. challenge_members e message users)))"

text \<open>\<open>context.chat_data.get("not_enough_rights", False)\<close> for the chat of the update.\<close>

definition not_enough_rights :: "int \<Rightarrow> world \<Rightarrow> bool" where
  "not_enough_rights chat_id w =
     (case chat_data w chat_id ''not_enough_rights'' of None \<Rightarrow> False | Some flag \<Rightarrow> flag)"

definition new_mem :: "env \<Rightarrow> message \<Rightarrow> unit action" where
  "new_mem e message =
     andThen (refresh_quiz e) (\<lambda>_.
       if list_ex (\<lambda>user. uid user = bot_id e) (new_chat_members message) then returns ()
       else (\<lambda>w.
         if not_enough_rights (cid (msg_chat message)) w then (Inr (), w)
         else andThen (get_chat_administrators e (cid (msg_chat message)))
                (\<lambda>chat_administrators.
                   if is_admin chat_administrators (uid (from_user message))
                   then call_bot e (ReplyText (cid (msg_chat message)) (message_id message)
                                 AdminInviteNotice)
                   else challenge_members e message (new_chat_members message)) w))"

section \<open>TemplatePreviewCache\<close>

type_synonym bytes = "8 word list"

text \<open>
  \<open>pickle\<close> and \<open>gzip\<close> are Python's own modules and the store is a Redis server; the
  cache is given them as parameters. \<open>pickle.dumps\<close> raises for a value that cannot be
  serialized, \<open>pickle.loads\<close> and \<open>gzip.decompress\<close> raise for bytes they cannot read.
\<close>

record 'v codec =
  pickle_dumps :: "'v \<Rightarrow> error + bytes"
  pickle_loads :: "bytes \<Rightarrow> error + 'v"
  gzip_compress :: "bytes \<Rightarrow> bytes"
  gzip_decompress :: "bytes \<Rightarrow> error + bytes"

text \<open>
  The store: the bytes under each key and the time to live asked for. When the
  server drops a key is the server's business and no part of the cache.
\<close>

record redis =
  entries :: "string \<rightharpoonup> bytes"
  expiry :: "string \<rightharpoonup> int"

text \<open>
  \<open>GET\<close>, \<open>SET\<close> and \<open>EXPIRE\<close>. \<open>SET\<close> drops the time to live the key had.
  \<open>EXPIRE\<close> with a time that is not positive deletes the key at once.
\<close>

definition client_get :: "string \<Rightarrow> redis \<Rightarrow> bytes option" where
  "client_get k r = entries r k"

definition client_set :: "string \<Rightarrow> bytes \<Rightarrow> redis \<Rightarrow> redis" where
  "client_set k v r = r\<lparr>entries := (entries r)(k \<mapsto> v), expiry := (expiry r)(k := None)\<rparr>"

definition client_expire :: "string \<Rightarrow> int \<Rightarrow> redis \<Rightarrow> redis" where
  "client_expire k ttl r =
     (if entries r k = None then r
      else if ttl \<le> 0 then r\<lparr>entries := (entries r)(k := None), expiry := (expiry r)(k := None)\<rparr>
      else r\<lparr>expiry := (expiry r)(k \<mapsto> ttl)\<rparr>)"

definition qname :: string where
  "qname = ''bot:template:preview''"

definition cache_key :: "string \<Rightarrow> string" where
  "cache_key key = qname @ '':'' @ key"

text \<open>
  \<open>get_data\<close> returns \<open>None\<close> when \<open>if data:\<close> fails, which is so for \<open>None\<close> and for
  empty bytes.
\<close>

definition get_data :: "'v codec \<Rightarrow> string \<Rightarrow> redis \<Rightarrow> error + 'v option" where
  "get_data c key r =
     (case client_get (cache_key key) r of
        None \<Rightarrow> Inr None
      | Some data \<Rightarrow>
          if data = [] then Inr None
          else (case gzip_decompress c data of
                  Inl err \<Rightarrow> Inl err
                | Inr raw \<Rightarrow>
                    (case pickle_loads c raw of
                       Inl err \<Rightarrow> Inl err
                     | Inr v \<Rightarrow> Inr (Some v))))"

definition default_ttl :: int where
  "default_ttl = 8 * 60 * 60"

definition set_data :: "'v codec \<Rightarrow> string \<Rightarrow> 'v \<Rightarrow> int \<Rightarrow> redis \<Rightarrow> (error + unit) \<times> redis" where
  "set_data c key data ttl r =
     (let ck = cache_key key
      in case pickle_dumps c data of
           Inl err \<Rightarrow> (Inl err, r)
         | Inr raw \<Rightarrow>
             (let r' = client_set ck (gzip_compress c raw) r
              in if ttl \<noteq> - 1 then (Inr (), client_expire ck ttl r') else (Inr (), r')))"

section \<open>A process lifetime\<close>

text \<open>
  The dispatcher hands each update to one of the three handlers. A process starts in the
  state \<open>__init__\<close> leaves and runs the handlers of the updates it receives, one after
  the other; a handler that raises ends, and the next update is handled all the same.
\<close>

datatype update = NewChatMembers message | AdminDecision callback_query | QuizAnswer callback_query

definition handle :: "env \<Rightarrow> update \<Rightarrow> unit action" where
  "handle e u =
     (case u of
        NewChatMembers m \<Rightarrow> new_mem e m
      | AdminDecision cq \<Rightarrow> admin e cq
      | QuizAnswer cq \<Rightarrow> query e cq)"

fun run :: "env \<Rightarrow> update list \<Rightarrow> world \<Rightarrow> world" where
  "run e [] w = w"
| "run e (u # us) w = run e us (snd (handle e u w))"

fun is_new_members :: "update \<Rightarrow> bool" where
  "is_new_members (NewChatMembers m) = True"
| "is_new_members u = False"

definition initial_world :: world where
  "initial_world =
     \<lparr>calls = [], jobs = Map.empty, chat_data = (\<lambda>_. Map.empty),
      chat_administrators_cache = Map.empty, is_refresh_quiz = False,
      quiz_refresh_calls = 0, clock_reads = 0\<rparr>"

text \<open>The flag of \<open>refresh_quiz\<close> and the number of refreshes it has asked for.\<close>

definition quiz_state :: "world \<Rightarrow> bool \<times> nat" where
  "quiz_state w = (is_refresh_quiz w, quiz_refresh_calls w)"

definition keeps_quiz :: "'a action \<Rightarrow> bool" where
  "keeps_quiz m = (\<forall>w. quiz_state (snd (m w)) = quiz_state w)"

definition refreshed_once :: "world \<Rightarrow> bool" where
  "refreshed_once w = (quiz_state w = (True, 1) \<or> quiz_state w = (False, 0))"

section \<open>The challenge of one member\<close>

text \<open>
  Names for two values that \<open>send_challenge\<close> builds: the message with the question
  and the keyboard, and the job of the third \<open>run_once\<close>.
\<close>

definition question_cleanup :: "env \<Rightarrow> message \<Rightarrow> user \<Rightarrow> bot_call \<Rightarrow> job" where
  "question_cleanup e message user sending =
     \<lparr>job_run = clean_message_job, job_when = time_out,
      job_name = job_key (cid (msg_chat message)) (uid user) ''auth_clean_question_message'',
      job_chat_id = cid (msg_chat message), job_user_id = uid user,
      job_data = Some (sent_message_id e sending)\<rparr>"

definition challenge_call :: "env \<Rightarrow> message \<Rightarrow> user \<Rightarrow> int \<Rightarrow> bot_call" where
  "challenge_call e message user chosen =
     ReplyMarkdownV2 (cid (msg_chat message)) (message_id message)
       (ChallengeText (escape_markdown e (question_text (get_question e chosen))) time_out)
       (shuffle e (map (\<lambda>answer. [answer_button (uid user) (get_question e chosen) answer])
                     (answers (get_question e chosen)))
        @ [[pass_button (uid user), kick_button (uid user)]])"

section \<open>A concrete chat\<close>

text \<open>
  A small world to run the handlers in: a chat with the administrator Alice, the
  members Bob and Carol, one question with two answers, and a bot client that accepts
  every call. \<open>decimal_int\<close> is \<open>int(str)\<close> on the decimal numerals that the buttons
  of the bot carry.
\<close>

definition digit_of :: "char \<Rightarrow> nat option" where
  "digit_of c = (let n = (of_char c :: nat) in if 48 \<le> n \<and> n \<le> 57 then Some (n - 48) else None)"

fun decimal_nat :: "nat \<Rightarrow> string \<Rightarrow> nat option" where
  "decimal_nat acc [] = Some acc"
| "decimal_nat acc (c # cs) =
     (case digit_of c of None \<Rightarrow> None | Some d \<Rightarrow> decimal_nat (10 * acc + d) cs)"

definition decimal_int :: "string \<Rightarrow> int option" where
  "decimal_int s =
     (case s of
        [] \<Rightarrow> None
      | c # cs \<Rightarrow>
          if c = CHR ''-''
          then (if cs = [] then None else map_option (\<lambda>n. - int n) (decimal_nat 0 cs))
          else map_option int (decimal_nat 0 s))"

text \<open>
  The addition of floats in the concrete chat: the exact sum, rounded to the nearest
  number with a 53-bit significand, a tie going to the even significand, as IEEE 754
  doubles round (sums beyond the range of doubles do not occur here).
  \<open>binary_exponent x\<close> is the \<open>e\<close> with \<open>2 ^ e \<le> x < 2 ^ (e + 1)\<close>, for \<open>x > 0\<close>.
\<close>

fun bit_length :: "nat \<Rightarrow> nat" where
  "bit_length n = (if n = 0 then 0 else Suc (bit_length (n div 2)))"

declare bit_length.simps [simp del]

definition binary_exponent :: "real \<Rightarrow> int" where
  "binary_exponent x =
     (if 1 \<le> x then int (bit_length (nat \<lfloor>x\<rfloor>)) - 1
      else - int (bit_length (nat \<lceil>1 / x\<rceil> - 1)))"

definition two_to :: "int \<Rightarrow> real" where
  "two_to k = (if 0 \<le> k then 2 ^ nat k else 1 / 2 ^ nat (- k))"

definition round_half_even :: "real \<Rightarrow> int" where
  "round_half_even q =
     (if q - of_int \<lfloor>q\<rfloor> < 1 / 2 then \<lfloor>q\<rfloor>
      else if 1 / 2 < q - of_int \<lfloor>q\<rfloor> then \<lfloor>q\<rfloor> + 1
      else if even \<lfloor>q\<rfloor> then \<lfloor>q\<rfloor> else \<lfloor>q\<rfloor> + 1)"

definition round_double :: "real \<Rightarrow> real" where
  "round_double x =
     (if x = 0 then 0
      else sgn x * of_int (round_half_even (\<bar>x\<bar> / two_to (max (binary_exponent \<bar>x\<bar>) (- 1022) - 52)))
             * two_to (max (binary_exponent \<bar>x\<bar>) (- 1022) - 52))"

definition double_add :: "real \<Rightarrow> real \<Rightarrow> real" where
  "double_add x y = round_double (x + y)"

definition alice :: user where
  "alice = \<lparr>uid = 1, is_bot = False, full_name = ''Alice''\<rparr>"

definition bob :: user where
  "bob = \<lparr>uid = 7, is_bot = False, full_name = ''Bob''\<rparr>"

definition carol :: user where
  "carol = \<lparr>uid = 8, is_bot = False, full_name = ''Carol''\<rparr>"

definition demo_chat :: chat where
  "demo_chat = \<lparr>cid = - 100, title = ''Teyvat''\<rparr>"

definition demo_answer :: "int \<Rightarrow> answer" where
  "demo_answer a =
     (if a = 21 then \<lparr>answer_id = 21, answer_text = ''Mondstadt'', is_correct = True\<rparr>
      else \<lparr>answer_id = a, answer_text = ''Liyue'', is_correct = False\<rparr>)"

definition demo_question :: "int \<Rightarrow> question" where
  "demo_question q =
     \<lparr>question_id = q, question_text = ''Where?'', answers = [demo_answer 21, demo_answer 22]\<rparr>"

definition demo_env :: env where
  "demo_env =
     \<lparr>bot_id = 99,
      time_at = (\<lambda>n. 1000 + real n / 2),
      float_add = double_add,
      raised_by = (\<lambda>c. None),
      administrators_of = (\<lambda>c. [\<lparr>cm_user = alice\<rparr>]),
      member_of = (\<lambda>c u. \<lparr>cm_user = \<lparr>uid = u, is_bot = False, full_name = ''member''\<rparr>\<rparr>),
      sent_message_id = (\<lambda>c. 501),
      to_int = decimal_int,
      mention_markdown_v2 = full_name,
      escape_markdown = (\<lambda>s. s),
      quiz_refresh_raises = (\<lambda>n. None),
      question_id_list = [11],
      get_question = demo_question,
      get_answer = demo_answer,
      random_index = (\<lambda>lo hi. lo),
      shuffle = rev\<rparr>"

definition demo_join :: message where
  "demo_join = \<lparr>message_id = 40, msg_chat = demo_chat, from_user = bob, new_chat_members = [bob]\<rparr>"

definition cached_world :: "real \<Rightarrow> world" where
  "cached_world t =
     initial_world\<lparr>chat_administrators_cache := [''-100'' \<mapsto> (t, [\<lparr>cm_user = carol\<rparr>])]\<rparr>"

text \<open>
  A clock that stands at 2147483760 seconds, for an entry cached \<open>2 ^ 22\<close>-th of a second
  after 2147483400: both are floats, and the entry is younger than 360 seconds.
\<close>

definition late_env :: env where
  "late_env = demo_env\<lparr>time_at := (\<lambda>n. 2147483760)\<rparr>"

text \<open>A quiz service whose first refresh raises and whose later refreshes return.\<close>

definition flaky_env :: env where
  "flaky_env =
     demo_env\<lparr>quiz_refresh_raises :=
       (\<lambda>n. if n = 0 then Some (OtherError ''connection lost'') else None)\<rparr>"

definition paimon :: user where
  "paimon = \<lparr>uid = 99, is_bot = True, full_name = ''Paimon''\<rparr>"

definition challenge_message :: message where
  "challenge_message =
     \<lparr>message_id = 501, msg_chat = demo_chat, from_user = paimon, new_chat_members = []\<rparr>"

definition press :: "user \<Rightarrow> string \<Rightarrow> callback_query" where
  "press u d = \<lparr>cq_id = ''cb'', cq_from_user = u, cq_message = challenge_message, cq_data = d\<rparr>"

definition pending_job :: job where
  "pending_job =
     \<lparr>job_run = clean_message_job, job_when = 120,
      job_name = ''-100|7|auth_clean_question_message'', job_chat_id = - 100, job_user_id = 7,
      job_data = Some 501\<rparr>"

definition pending_world :: world where
  "pending_world = initial_world\<lparr>jobs := [''-100|7|auth_kick'' \<mapsto> pending_job]\<rparr>"

text \<open>
  A scheduler that holds, each under the id of its own name, the kick job and the
  join-message cleanup of Bob and the kick job of Carol.
\<close>

definition bob_kick :: job where
  "bob_kick =
     \<lparr>job_run = kick_member_job, job_when = 120, job_name = ''-100|7|auth_kick'',
      job_chat_id = - 100, job_user_id = 7, job_data = None\<rparr>"

definition bob_join_cleanup :: job where
  "bob_join_cleanup =
     \<lparr>job_run = clean_message_job, job_when = 120,
      job_name = ''-100|7|auth_clean_join_message'', job_chat_id = - 100, job_user_id = 7,
      job_data = Some 40\<rparr>"

definition carol_kick :: job where
  "carol_kick =
     \<lparr>job_run = kick_member_job, job_when = 120, job_name = ''-100|8|auth_kick'',
      job_chat_id = - 100, job_user_id = 8, job_data = None\<rparr>"

definition claimed_world :: world where
  "claimed_world =
     initial_world\<lparr>jobs := [''-100|7|auth_kick'' \<mapsto> bob_kick,
                            ''-100|7|auth_clean_join_message'' \<mapsto> bob_join_cleanup,
                            ''-100|8|auth_kick'' \<mapsto> carol_kick]\<rparr>"

text \<open>
  A cache whose entry for the chat, written at time 640, lists Carol, while the bot
  client says that Alice is the administrator; Bob's kick job is pending.
\<close>

definition stale_world :: world where
  "stale_world =
     initial_world\<lparr>jobs := [''-100|7|auth_kick'' \<mapsto> bob_kick],
       chat_administrators_cache := [''-100'' \<mapsto> (640, [\<lparr>cm_user = carol\<rparr>])]\<rparr>"

text \<open>\<open>get_chat_member\<close> returned, or raised the \<open>BadRequest\<close> that \<open>admin\<close> catches.\<close>

definition returned_or_BadRequest :: "error option \<Rightarrow> bool" where
  "returned_or_BadRequest r =
     (case r of None \<Rightarrow> True | Some (BadRequest err) \<Rightarrow> True | Some other \<Rightarrow> False)"

text \<open>
  Two joins besides Bob's own: Bob adds Alice, and Alice adds Bob. Two bot clients
  besides the one that accepts every call: one refuses to restrict the administrator
  Alice, one lacks the right to restrict Bob. And the state of a chat whose
  \<open>not_enough_rights\<close> flag is set.
\<close>

definition admin_join :: message where
  "admin_join = \<lparr>message_id = 41, msg_chat = demo_chat, from_user = bob, new_chat_members = [alice]\<rparr>"

definition invited_join :: message where
  "invited_join = \<lparr>message_id = 42, msg_chat = demo_chat, from_user = alice, new_chat_members = [bob]\<rparr>"

definition strict_env :: env where
  "strict_env =
     demo_env\<lparr>raised_by :=
       (\<lambda>c. if c = RestrictChatMember (- 100) 1 ReadOnlyChatPermissions
            then Some (BadRequest ''Bad Request: user is an administrator of the chat'')
            else None)\<rparr>"

definition powerless_env :: env where
  "powerless_env =
     demo_env\<lparr>raised_by :=
       (\<lambda>c. if c = RestrictChatMember (- 100) 7 ReadOnlyChatPermissions
            then Some (BadRequest
              ''Bad Request: Not enough rights to restrict/unrestrict chat member'')
            else None)\<rparr>"

definition flagged_world :: world where
  "flagged_world =
     initial_world\<lparr>chat_data := (\<lambda>_. Map.empty)(- 100 := [''not_enough_rights'' \<mapsto> True])\<rparr>"

section \<open>Evaluation in the concrete chat\<close>

lemmas demo_defs = demo_env_def demo_join_def demo_chat_def alice_def bob_def carol_def
  demo_answer_def demo_question_def decimal_int_def digit_of_def cached_world_def initial_world_def
  str_int_def digits.simps digit_char_def

lemmas press_defs = paimon_def challenge_message_def press_def pending_job_def pending_world_def

lemmas run_defs = get_chat_administrators_def fetch_chat_administrators_def andThen_def
  time_time_def returns_def raises_def call_bot_def except_BadRequest_def int_field_def
  py_index_def query_callback_def admin_callback_def is_admin_def job_key_def


section \<open>The quiz is refreshed once\<close>

lemma keeps_quiz_returns: "keeps_quiz (returns x)"
  by (simp add: keeps_quiz_def returns_def)

lemma keeps_quiz_raises: "keeps_quiz (raises err)"
  by (simp add: keeps_quiz_def raises_def)

lemma keeps_quiz_andThen:
  assumes "keeps_quiz m" and "\<And>x. keeps_quiz (k x)"
  shows "keeps_quiz (andThen m k)"
  unfolding keeps_quiz_def
proof
  fix w
  obtain r w' where mw: "m w = (r, w')" by (cases "m w")
  with assms(1) have q: "quiz_state w' = quiz_state w"
    by (metis keeps_quiz_def snd_conv)
  show "quiz_state (snd (andThen m k w)) = quiz_state w"
  proof (cases r)
    case (Inl err)
    with mw q show ?thesis by (simp add: andThen_def)
  next
    case (Inr x)
    with mw q assms(2) [of x] show ?thesis by (simp add: andThen_def keeps_quiz_def)
  qed
qed

lemma keeps_quiz_except:
  assumes "keeps_quiz m" and "\<And>s. keeps_quiz (h s)"
  shows "keeps_quiz (except_BadRequest m h)"
  unfolding keeps_quiz_def
proof
  fix w
  obtain r w' where mw: "m w = (r, w')" by (cases "m w")
  with assms(1) have q: "quiz_state w' = quiz_state w"
    by (metis keeps_quiz_def snd_conv)
  show "quiz_state (snd (except_BadRequest m h w)) = quiz_state w"
    using mw q assms(2)
    by (auto simp: except_BadRequest_def keeps_quiz_def split: sum.splits error.splits)
qed

lemma keeps_quiz_bot: "keeps_quiz (call_bot e c)"
  by (simp add: keeps_quiz_def call_bot_def quiz_state_def split: option.splits)

lemma keeps_quiz_time: "keeps_quiz (time_time e)"
  by (simp add: keeps_quiz_def time_time_def quiz_state_def)

lemma keeps_quiz_run_once: "keeps_quiz (run_once i j)"
  by (simp add: keeps_quiz_def run_once_def quiz_state_def)

lemma keeps_quiz_remove_job: "keeps_quiz (remove_job i)"
  by (simp add: keeps_quiz_def remove_job_def quiz_state_def split: option.splits)

lemma keeps_quiz_if: "keeps_quiz m \<Longrightarrow> keeps_quiz n \<Longrightarrow> keeps_quiz (if b then m else n)"
  by simp

lemma keeps_quiz_int_field: "keeps_quiz (int_field e parts i)"
  by (simp add: int_field_def keeps_quiz_returns keeps_quiz_raises split: sum.splits option.splits)

lemma keeps_quiz_case_prod: "(\<And>a b. keeps_quiz (f a b)) \<Longrightarrow> keeps_quiz (case_prod f p)"
  by (cases p) simp

lemma keeps_quiz_case_sum:
  "(\<And>a. keeps_quiz (f a)) \<Longrightarrow> (\<And>b. keeps_quiz (g b)) \<Longrightarrow> keeps_quiz (case_sum f g s)"
  by (cases s) simp_all

lemmas keeps_quiz_intros = keeps_quiz_case_prod keeps_quiz_case_sum keeps_quiz_if
  keeps_quiz_returns keeps_quiz_raises keeps_quiz_andThen keeps_quiz_except keeps_quiz_bot
  keeps_quiz_time keeps_quiz_run_once keeps_quiz_remove_job keeps_quiz_int_field

lemma keeps_quiz_fetch: "keeps_quiz (fetch_chat_administrators e c)"
  unfolding fetch_chat_administrators_def
  by (intro keeps_quiz_intros) (simp add: keeps_quiz_def quiz_state_def)

lemma keeps_quiz_get_admins: "keeps_quiz (get_chat_administrators e c)"
proof -
  have "keeps_quiz (andThen (time_time e) (\<lambda>now. if float_add e t 360 \<le> now then returns l else fetch_chat_administrators e c))" for t l
    by (intro keeps_quiz_intros keeps_quiz_if keeps_quiz_fetch)
  then show ?thesis
    using keeps_quiz_fetch [of e c]
    by (auto simp: keeps_quiz_def get_chat_administrators_def split: option.splits)
qed

lemma keeps_quiz_restore: "keeps_quiz (restore_member e c u)"
  unfolding restore_member_def by (intro keeps_quiz_intros)

lemma keeps_quiz_admin: "keeps_quiz (admin e cq)"
  unfolding admin_def Let_def admin_callback_def
  by (intro keeps_quiz_intros keeps_quiz_get_admins keeps_quiz_restore)

lemma keeps_quiz_query: "keeps_quiz (query e cq)"
  unfolding query_def Let_def query_callback_def
  by (intro keeps_quiz_intros keeps_quiz_get_admins keeps_quiz_restore)


lemma keeps_quiz_restrict: "keeps_quiz (restrict_member e m u)"
  unfolding restrict_member_def
  by (intro keeps_quiz_intros) (simp add: keeps_quiz_def quiz_state_def)

lemma keeps_quiz_send_challenge: "keeps_quiz (send_challenge e m u qs)"
  unfolding send_challenge_def Let_def
  by (intro keeps_quiz_intros)

lemma keeps_quiz_challenge_members: "keeps_quiz (challenge_members e m us)"
proof (induction us)
  case Nil
  show ?case by (simp add: keeps_quiz_returns)
next
  case (Cons u us)
  show ?case
    unfolding challenge_members.simps
    by (intro keeps_quiz_intros keeps_quiz_restrict keeps_quiz_send_challenge Cons.IH)
qed

lemma keeps_quiz_after_refresh:
  "keeps_quiz (\<lambda>w. if not_enough_rights c w then (Inr (), w)
         else andThen (get_chat_administrators e c)
                (\<lambda>chat_administrators.
                   if is_admin chat_administrators a
                   then call_bot e r
                   else challenge_members e m us) w)"
proof -
  have k: "keeps_quiz (andThen (get_chat_administrators e c)
                (\<lambda>chat_administrators.
                   if is_admin chat_administrators a
                   then call_bot e r
                   else challenge_members e m us))"
    by (intro keeps_quiz_intros keeps_quiz_get_admins keeps_quiz_challenge_members)
  then show ?thesis by (simp add: keeps_quiz_def)
qed

lemma new_mem_quiz_state:
  "quiz_state (snd (new_mem e m w)) = quiz_state (snd (refresh_quiz e w))"
proof -
  obtain r w' where rw: "refresh_quiz e w = (r, w')" by (cases "refresh_quiz e w")
  show ?thesis
  proof (cases r)
    case (Inl err)
    with rw show ?thesis by (simp add: new_mem_def andThen_def)
  next
    case (Inr x)
    have "keeps_quiz (if list_ex (\<lambda>user. uid user = bot_id e) (new_chat_members m) then returns ()
       else (\<lambda>w.
         if not_enough_rights (cid (msg_chat m)) w then (Inr (), w)
         else andThen (get_chat_administrators e (cid (msg_chat m)))
                (\<lambda>chat_administrators.
                   if is_admin chat_administrators (uid (from_user m))
                   then call_bot e (ReplyText (cid (msg_chat m)) (message_id m)
                                 AdminInviteNotice)
                   else challenge_members e m (new_chat_members m)) w))"
      by (intro keeps_quiz_intros keeps_quiz_after_refresh)
    with rw Inr show ?thesis by (simp add: new_mem_def andThen_def keeps_quiz_def)
  qed
qed

lemma refresh_quiz_refreshed_once:
  assumes "quiz_refresh_raises e 0 = None" and "refreshed_once w"
  shows "quiz_state (snd (refresh_quiz e w)) = (True, 1)"
  using assms
  by (auto simp: refreshed_once_def quiz_state_def refresh_quiz_def andThen_def
        quiz_service_refresh_quiz_def)

lemma handle_refreshed_once:
  assumes "quiz_refresh_raises e 0 = None" and "refreshed_once w"
  shows "refreshed_once (snd (handle e u w))"
proof (cases u)
  case (NewChatMembers m)
  with refresh_quiz_refreshed_once [OF assms] show ?thesis
    by (simp add: handle_def new_mem_quiz_state refreshed_once_def)
next
  case (AdminDecision cq)
  with keeps_quiz_admin [of e cq] assms(2) show ?thesis
    by (simp add: handle_def keeps_quiz_def refreshed_once_def)
next
  case (QuizAnswer cq)
  with keeps_quiz_query [of e cq] assms(2) show ?thesis
    by (simp add: handle_def keeps_quiz_def refreshed_once_def)
qed

lemma run_refreshed_once:
  assumes "quiz_refresh_raises e 0 = None"
  shows "refreshed_once w \<Longrightarrow> refreshed_once (run e us w)"
  by (induction us arbitrary: w) (simp_all add: handle_refreshed_once [OF assms])

lemma run_quiz_state:
  assumes "quiz_refresh_raises e 0 = None" and "refreshed_once w"
  shows "quiz_state (run e us w) =
           (if list_ex is_new_members us then (True, 1) else quiz_state w)"
  using assms(2)
proof (induction us arbitrary: w)
  case Nil
  show ?case by simp
next
  case (Cons u us)
  note step = handle_refreshed_once [OF assms(1) Cons.prems, of u]
  show ?case
  proof (cases u)
    case (NewChatMembers m)
    have "quiz_state (snd (handle e u w)) = (True, 1)"
      using NewChatMembers refresh_quiz_refreshed_once [OF assms(1) Cons.prems]
      by (simp add: handle_def new_mem_quiz_state)
    with Cons.IH [OF step] NewChatMembers show ?thesis by simp
  next
    case (AdminDecision cq)
    with keeps_quiz_admin [of e cq] Cons.IH [OF step] show ?thesis
      by (simp add: handle_def keeps_quiz_def)
  next
    case (QuizAnswer cq)
    with keeps_quiz_query [of e cq] Cons.IH [OF step] show ?thesis
      by (simp add: handle_def keeps_quiz_def)
  qed
qed

lemma refresh_quiz_raised:
  assumes "\<not> is_refresh_quiz w" and "quiz_refresh_raises e (quiz_refresh_calls w) = Some err"
  shows "refresh_quiz e w = (Inl err, w\<lparr>quiz_refresh_calls := Suc (quiz_refresh_calls w)\<rparr>)"
  using assms by (simp add: refresh_quiz_def andThen_def quiz_service_refresh_quiz_def)

lemma refresh_quiz_quiz_state:
  "quiz_state (snd (refresh_quiz e w)) =
     (if is_refresh_quiz w then quiz_state w
      else (quiz_refresh_raises e (quiz_refresh_calls w) = None, Suc (quiz_refresh_calls w)))"
  by (simp add: refresh_quiz_def andThen_def quiz_service_refresh_quiz_def quiz_state_def
        split: option.splits)

lemma handle_quiz_state_set:
  assumes "is_refresh_quiz w"
  shows "quiz_state (snd (handle e u w)) = quiz_state w"
proof (cases u)
  case (NewChatMembers m)
  with assms show ?thesis
    by (simp add: handle_def new_mem_quiz_state refresh_quiz_quiz_state)
next
  case (AdminDecision cq)
  with keeps_quiz_admin [of e cq] show ?thesis
    by (simp add: handle_def keeps_quiz_def)
next
  case (QuizAnswer cq)
  with keeps_quiz_query [of e cq] show ?thesis
    by (simp add: handle_def keeps_quiz_def)
qed

lemma run_quiz_state_set:
  "is_refresh_quiz w \<Longrightarrow> quiz_state (run e us w) = quiz_state w"
proof (induction us arbitrary: w)
  case Nil
  show ?case by simp
next
  case (Cons u us)
  from handle_quiz_state_set [OF Cons.prems, of e u]
  have same: "quiz_state (snd (handle e u w)) = quiz_state w" .
  with Cons.prems have "is_refresh_quiz (snd (handle e u w))"
    by (simp add: quiz_state_def)
  from Cons.IH [OF this] same show ?case by simp
qed

text \<open>
  C9, as stated, fails. The first refresh of the quiz service raises, so the flag stays
  unset; the second new-member update finds it unset and the quiz service is asked to
  refresh a second time.
\<close>

theorem refresh_quiz_twice_counterexample:
  "quiz_refresh_raises flaky_env 0 = Some (OtherError ''connection lost'')
   \<and> quiz_refresh_calls
        (run flaky_env [NewChatMembers demo_join, NewChatMembers demo_join] initial_world) = 2"
proof -
  let ?w1 = "snd (handle flaky_env (NewChatMembers demo_join) initial_world)"
  let ?w2 = "snd (handle flaky_env (NewChatMembers demo_join) ?w1)"
  have first: "quiz_state ?w1 = (False, 1)"
    by (simp add: handle_def new_mem_quiz_state refresh_quiz_quiz_state flaky_env_def
          initial_world_def)
  then have unset: "\<not> is_refresh_quiz ?w1" and once: "quiz_refresh_calls ?w1 = 1"
    by (simp_all add: quiz_state_def)
  have "quiz_state ?w2 = quiz_state (snd (refresh_quiz flaky_env ?w1))"
    by (simp add: handle_def new_mem_quiz_state)
  also have "\<dots> = (quiz_refresh_raises flaky_env (quiz_refresh_calls ?w1) = None,
                     Suc (quiz_refresh_calls ?w1))"
    unfolding refresh_quiz_quiz_state using unset by simp
  also have "\<dots> = (True, 2)"
    unfolding once by (simp add: flaky_env_def)
  finally have "quiz_refresh_calls ?w2 = 2"
    by (simp add: quiz_state_def)
  then show ?thesis
    by (simp add: flaky_env_def)
qed

text \<open>
  C9, amended. A call of \<open>refresh_quiz\<close> that finds the flag unset asks the quiz
  service to refresh, and the flag is set if and only if that refresh returns. A call
  that finds the flag set returns and changes nothing, and from a state with the flag
  set no sequence of updates makes the quiz service refresh again. So in a process
  whose first refresh returns, the quiz service is asked to refresh at most once,
  whatever updates arrive: once if a new-member update arrived, and then the flag is
  set; not at all otherwise.
\<close>

theorem refresh_quiz_at_most_once:
  "(quiz_refresh_raises e 0 = None
    \<longrightarrow> quiz_refresh_calls (run e us initial_world) = (if list_ex is_new_members us then 1 else 0)
        \<and> is_refresh_quiz (run e us initial_world) = list_ex is_new_members us)
 \<and> (is_refresh_quiz w
    \<longrightarrow> refresh_quiz e w = (Inr (), w)
        \<and> is_refresh_quiz (run e us w)
        \<and> quiz_refresh_calls (run e us w) = quiz_refresh_calls w)
 \<and> (\<not> is_refresh_quiz w
    \<longrightarrow> quiz_refresh_calls (snd (refresh_quiz e w)) = Suc (quiz_refresh_calls w)
        \<and> is_refresh_quiz (snd (refresh_quiz e w))
            = (quiz_refresh_raises e (quiz_refresh_calls w) = None))"
proof (intro conjI impI)
  assume returns: "quiz_refresh_raises e 0 = None"
  have "refreshed_once initial_world"
    by (simp add: refreshed_once_def quiz_state_def initial_world_def)
  from run_quiz_state [OF returns this, of us]
  show "quiz_refresh_calls (run e us initial_world) = (if list_ex is_new_members us then 1 else 0)"
    and "is_refresh_quiz (run e us initial_world) = list_ex is_new_members us"
    by (auto simp: quiz_state_def initial_world_def split: if_splits)
next
  assume set: "is_refresh_quiz w"
  then show "refresh_quiz e w = (Inr (), w)"
    by (simp add: refresh_quiz_def)
  from run_quiz_state_set [OF set, of e us] set
  show "is_refresh_quiz (run e us w)" and "quiz_refresh_calls (run e us w) = quiz_refresh_calls w"
    by (simp_all add: quiz_state_def)
next
  assume unset: "\<not> is_refresh_quiz w"
  from refresh_quiz_quiz_state [of e w] unset
  show "quiz_refresh_calls (snd (refresh_quiz e w)) = Suc (quiz_refresh_calls w)"
    and "is_refresh_quiz (snd (refresh_quiz e w))
            = (quiz_refresh_raises e (quiz_refresh_calls w) = None)"
    by (simp_all add: quiz_state_def)
qed

theorem refresh_quiz_at_most_once_witness:
  "(quiz_refresh_raises demo_env 0 = None
    \<and> quiz_refresh_calls
         (run demo_env [NewChatMembers demo_join, NewChatMembers demo_join] initial_world) = 1
    \<and> is_refresh_quiz
         (run demo_env [NewChatMembers demo_join, NewChatMembers demo_join] initial_world))
 \<and> (is_refresh_quiz (initial_world\<lparr>is_refresh_quiz := True, quiz_refresh_calls := 1\<rparr>)
    \<and> refresh_quiz flaky_env (initial_world\<lparr>is_refresh_quiz := True, quiz_refresh_calls := 1\<rparr>)
        = (Inr (), initial_world\<lparr>is_refresh_quiz := True, quiz_refresh_calls := 1\<rparr>)
    \<and> quiz_refresh_calls
         (run flaky_env [NewChatMembers demo_join, NewChatMembers demo_join]
            (initial_world\<lparr>is_refresh_quiz := True, quiz_refresh_calls := 1\<rparr>)) = 1)
 \<and> (\<not> is_refresh_quiz initial_world
    \<and> quiz_refresh_calls (snd (refresh_quiz flaky_env initial_world)) = 1
    \<and> \<not> is_refresh_quiz (snd (refresh_quiz flaky_env initial_world))
    \<and> quiz_refresh_calls (snd (refresh_quiz demo_env initial_world)) = 1
    \<and> is_refresh_quiz (snd (refresh_quiz demo_env initial_world)))"
proof -
  let ?us = "[NewChatMembers demo_join, NewChatMembers demo_join]"
  let ?set = "initial_world\<lparr>is_refresh_quiz := True, quiz_refresh_calls := 1\<rparr>"
  have a: "quiz_refresh_raises demo_env 0 = None"
    by (simp add: demo_env_def)
  note first = refresh_quiz_at_most_once [of demo_env ?us, THEN conjunct1, THEN mp, OF a]
  have a1: "quiz_refresh_calls (run demo_env ?us initial_world) = 1"
    using first by simp
  have a2: "is_refresh_quiz (run demo_env ?us initial_world)"
    using first by simp
  have b: "is_refresh_quiz ?set"
    by simp
  note second = refresh_quiz_at_most_once [of flaky_env ?us ?set,
      THEN conjunct2, THEN conjunct1, THEN mp, OF b]
  have b1: "refresh_quiz flaky_env ?set = (Inr (), ?set)"
    by (rule second [THEN conjunct1])
  have b2: "quiz_refresh_calls (run flaky_env ?us ?set) = 1"
    using second by simp
  have c: "\<not> is_refresh_quiz initial_world"
    by (simp add: initial_world_def)
  note third = refresh_quiz_at_most_once [of _ _ initial_world,
      THEN conjunct2, THEN conjunct2, THEN mp, OF c]
  have c1: "quiz_refresh_calls (snd (refresh_quiz flaky_env initial_world)) = 1"
    using third [of flaky_env] by (simp add: initial_world_def)
  have c2: "\<not> is_refresh_quiz (snd (refresh_quiz flaky_env initial_world))"
    using third [of flaky_env] by (simp add: initial_world_def flaky_env_def)
  have c3: "quiz_refresh_calls (snd (refresh_quiz demo_env initial_world)) = 1"
    using third [of demo_env] by (simp add: initial_world_def)
  have c4: "is_refresh_quiz (snd (refresh_quiz demo_env initial_world))"
    using third [of demo_env] by (simp add: initial_world_def demo_env_def)
  show ?thesis
    by (intro conjI a a1 a2 b b1 b2 c c1 c2 c3 c4)
qed

section \<open>The administrator cache\<close>

lemma round_double_positive:
  assumes "0 < x" and "binary_exponent x = e" and "- 1022 \<le> e"
    and "x / two_to (e - 52) = q" and "round_half_even q = n"
  shows "round_double x = of_int n * two_to (e - 52)"
  using assms by (simp add: round_double_def max_def)

lemma double_add_640: "double_add 640 360 = 1000"
  by (simp add: double_add_def round_double_def binary_exponent_def bit_length.simps two_to_def
        round_half_even_def)

lemma double_add_999: "double_add 999 360 = 1359"
  by (simp add: double_add_def round_double_def binary_exponent_def bit_length.simps two_to_def
        round_half_even_def)

lemma double_add_tie: "double_add (9007198214553601 / 4194304) 360 = 2147483760"
proof -
  have fl: "\<lfloor>(9007198214553601::real) / 4194304 + 360\<rfloor> = 2147483760"
    by (simp add: floor_eq_iff)
  have len: "bit_length 2147483760 = 32"
    by (simp add: bit_length.simps)
  have e: "binary_exponent (9007198214553601 / 4194304 + 360) = 31"
    by (simp add: binary_exponent_def fl len)
  have q: "((9007198214553601::real) / 4194304 + 360) / two_to (31 - 52) = 9007199724503041 / 2"
    by (simp add: two_to_def)
  have half: "\<lfloor>(9007199724503041::real) / 2\<rfloor> = 4503599862251520"
    by simp
  have n: "round_half_even (9007199724503041 / 2) = 4503599862251520"
    by (simp add: round_half_even_def half)
  have "round_double (9007198214553601 / 4194304 + 360)
      = of_int 4503599862251520 * two_to (31 - 52)"
    by (rule round_double_positive [OF _ e _ q n]) simp_all
  then show ?thesis by (simp add: double_add_def two_to_def)
qed

text \<open>
  C2, as stated, fails. The entry was cached at 2147483400 + \<open>2 ^ -22\<close> and the clock
  reads 2147483760: the entry is younger than 360 seconds, and the float sum
  \<open>cache_time + 360\<close> is 2147483760, a tie rounded to even. The comparison of line 53
  holds, the cached list is returned and nothing is fetched.
\<close>

theorem get_chat_administrators_young_entry_counterexample:
  "chat_administrators_cache (cached_world (9007198214553601 / 4194304)) (str_int (- 100))
     = Some (9007198214553601 / 4194304, [\<lparr>cm_user = carol\<rparr>])
   \<and> time_at late_env (clock_reads (cached_world (9007198214553601 / 4194304)))
       - 9007198214553601 / 4194304 < 360
   \<and> raised_by late_env (GetChatAdministrators (- 100)) = None
   \<and> get_chat_administrators late_env (- 100) (cached_world (9007198214553601 / 4194304))
       = (Inr [\<lparr>cm_user = carol\<rparr>],
          (cached_world (9007198214553601 / 4194304))\<lparr>clock_reads := 1\<rparr>)"
  by (simp add: get_chat_administrators_def andThen_def time_time_def returns_def
        late_env_def demo_env_def cached_world_def initial_world_def double_add_tie
        str_int_def digits.simps digit_char_def)

text \<open>
  C2, amended. \<open>get_chat_administrators\<close>: when the cache holds an entry for the chat
  and the clock is at least the float sum of the entry's time and 360, the cached list
  is returned and neither the cache nor the bot client is touched. When the clock is
  below that sum, or when there is no entry, and the bot client answers, the list is
  fetched from the bot client, stored in the cache under the chat together with the
  time read after the fetch, and returned.
\<close>

theorem get_chat_administrators_cache:
  "(chat_administrators_cache w (str_int chat_id) = Some (cache_time, cached)
      \<and> time_at e (clock_reads w) \<ge> float_add e cache_time 360
    \<longrightarrow> get_chat_administrators e chat_id w
          = (Inr cached, w\<lparr>clock_reads := Suc (clock_reads w)\<rparr>))
 \<and> (chat_administrators_cache w (str_int chat_id) = Some (cache_time, cached)
      \<and> time_at e (clock_reads w) < float_add e cache_time 360
      \<and> raised_by e (GetChatAdministrators chat_id) = None
    \<longrightarrow> get_chat_administrators e chat_id w
          = (Inr (administrators_of e chat_id),
             w\<lparr>calls := calls w @ [GetChatAdministrators chat_id],
               clock_reads := Suc (Suc (clock_reads w)),
               chat_administrators_cache := (chat_administrators_cache w)
                 (str_int chat_id \<mapsto> (time_at e (Suc (clock_reads w)), administrators_of e chat_id))\<rparr>))
 \<and> (chat_administrators_cache w (str_int chat_id) = None
      \<and> raised_by e (GetChatAdministrators chat_id) = None
    \<longrightarrow> get_chat_administrators e chat_id w
          = (Inr (administrators_of e chat_id),
             w\<lparr>calls := calls w @ [GetChatAdministrators chat_id],
               clock_reads := Suc (clock_reads w),
               chat_administrators_cache := (chat_administrators_cache w)
                 (str_int chat_id \<mapsto> (time_at e (clock_reads w), administrators_of e chat_id))\<rparr>))"
  by (simp add: get_chat_administrators_def fetch_chat_administrators_def andThen_def
        time_time_def returns_def call_bot_def)

theorem get_chat_administrators_cache_witness:
  "(chat_administrators_cache (cached_world 640) (str_int (- 100)) = Some (640, [\<lparr>cm_user = carol\<rparr>])
      \<and> time_at demo_env (clock_reads (cached_world 640)) \<ge> float_add demo_env 640 360
      \<and> get_chat_administrators demo_env (- 100) (cached_world 640)
          = (Inr [\<lparr>cm_user = carol\<rparr>], (cached_world 640)\<lparr>clock_reads := 1\<rparr>))
 \<and> (chat_administrators_cache (cached_world 999) (str_int (- 100)) = Some (999, [\<lparr>cm_user = carol\<rparr>])
      \<and> time_at demo_env (clock_reads (cached_world 999)) < float_add demo_env 999 360
      \<and> raised_by demo_env (GetChatAdministrators (- 100)) = None
      \<and> get_chat_administrators demo_env (- 100) (cached_world 999)
          = (Inr [\<lparr>cm_user = alice\<rparr>],
             (cached_world 999)\<lparr>calls := [GetChatAdministrators (- 100)], clock_reads := 2,
               chat_administrators_cache := [''-100'' \<mapsto> (1000.5, [\<lparr>cm_user = alice\<rparr>])]\<rparr>))
 \<and> (chat_administrators_cache initial_world (str_int (- 100)) = None
      \<and> raised_by demo_env (GetChatAdministrators (- 100)) = None
      \<and> get_chat_administrators demo_env (- 100) initial_world
          = (Inr [\<lparr>cm_user = alice\<rparr>],
             initial_world\<lparr>calls := [GetChatAdministrators (- 100)], clock_reads := 1,
               chat_administrators_cache := [''-100'' \<mapsto> (1000, [\<lparr>cm_user = alice\<rparr>])]\<rparr>))"
  using get_chat_administrators_cache [of "cached_world 640" "- 100" 640 "[\<lparr>cm_user = carol\<rparr>]" demo_env]
    get_chat_administrators_cache [of "cached_world 999" "- 100" 999 "[\<lparr>cm_user = carol\<rparr>]" demo_env]
    get_chat_administrators_cache [of initial_world "- 100" 0 "[]" demo_env]
  by (simp add: demo_defs double_add_640 double_add_999)

section \<open>The quiz-answer handler\<close>

lemma remove_job_eq: "remove_job i w = (Inr (), w\<lparr>jobs := (jobs w)(i := None)\<rparr>)"
proof (cases "jobs w i")
  case None
  then have "(jobs w)(i := None) = jobs w" by (simp add: fun_upd_idem)
  with None show ?thesis by (simp add: remove_job_def)
next
  case (Some j)
  then show ?thesis by (simp add: remove_job_def)
qed

lemma int_field_world: "snd (int_field e parts i w) = w"
  by (simp add: int_field_def raises_def returns_def split: sum.splits option.splits)

lemma query_callback_world: "snd (query_callback e d w) = w"
  by (simp add: query_callback_def Let_def andThen_def int_field_def raises_def returns_def
        split: sum.splits option.splits prod.splits)

lemma query_callback_result:
  "fst (query_callback e d w) = r \<Longrightarrow> query_callback e d w = (r, w)"
  using query_callback_world [of e d w] by (cases "query_callback e d w") simp

lemma admin_callback_result:
  "fst (admin_callback e d w) = r \<Longrightarrow> admin_callback e d w = (r, w)"
  by (auto simp: admin_callback_def Let_def andThen_def int_field_def raises_def returns_def
        split: sum.splits option.splits prod.splits)

lemma restore_member_swallows_BadRequest:
  assumes "raised_by e (RestrictChatMember chat_id user_id FullChatPermissions)
             = Some (BadRequest err)"
  shows "restore_member e chat_id user_id w = (Inr (), w)"
  using assms
  by (simp add: restore_member_def except_BadRequest_def call_bot_def returns_def)

lemma restore_member_passes_other_errors:
  assumes "raised_by e (RestrictChatMember chat_id user_id FullChatPermissions)
             = Some (OtherError err)"
  shows "restore_member e chat_id user_id w = (Inl (OtherError err), w)"
  using assms
  by (simp add: restore_member_def except_BadRequest_def call_bot_def)

text \<open>
  C3. The addressed user presses the correct answer, and the bot client accepts the
  three calls: the handler answers the callback, restores the user's permissions to
  the set in which each of the eight permissions is granted, edits the challenge
  message to the success text with one button, labelled "kick" and carrying
  \<open>auth_admin|kick|\<close> and the user's id, and leaves no job under the id of the
  join-message cleanup and none under the id of the kick job of that chat and user.
  The handler does not look at the time, so this holds before the deadline and after
  it.
\<close>

theorem query_correct_answer:
  assumes "fst (query_callback e (cq_data cq) w) = Inr (user_id, True, question, answer)"
    and "uid (cq_from_user cq) = user_id"
    and "raised_by e (AnswerCallbackQuery (cq_id cq) VerifySuccessToast False) = None"
    and "raised_by e (RestrictChatMember (cid (msg_chat (cq_message cq))) user_id
           \<lparr>can_send_messages = Some True, can_send_media_messages = Some True,
            can_send_polls = Some True, can_send_other_messages = Some True,
            can_add_web_page_previews = Some True, can_change_info = Some True,
            can_invite_users = Some True, can_pin_messages = Some True\<rparr>) = None"
    and "raised_by e (EditMessageText (cid (msg_chat (cq_message cq))) (message_id (cq_message cq))
           (VerifySuccessText (mention_markdown_v2 e (cq_from_user cq))
              (escape_markdown e question) (escape_markdown e answer))
           (Some [[\<lparr>button_label = KickLabel,
                     callback_data = ''auth_admin|kick|'' @ str_int user_id\<rparr>]])) = None"
  shows "query e cq w =
           (Inr (),
            w\<lparr>calls := calls w @
                 [AnswerCallbackQuery (cq_id cq) VerifySuccessToast False,
                  RestrictChatMember (cid (msg_chat (cq_message cq))) user_id
                    \<lparr>can_send_messages = Some True, can_send_media_messages = Some True,
                     can_send_polls = Some True, can_send_other_messages = Some True,
                     can_add_web_page_previews = Some True, can_change_info = Some True,
                     can_invite_users = Some True, can_pin_messages = Some True\<rparr>,
                  EditMessageText (cid (msg_chat (cq_message cq))) (message_id (cq_message cq))
                    (VerifySuccessText (mention_markdown_v2 e (cq_from_user cq))
                       (escape_markdown e question) (escape_markdown e answer))
                    (Some [[\<lparr>button_label = KickLabel,
                              callback_data = ''auth_admin|kick|'' @ str_int user_id\<rparr>]])],
              jobs := (jobs w)
                 (str_int (cid (msg_chat (cq_message cq))) @ ''|'' @ str_int user_id
                    @ ''|auth_clean_join_message'' := None,
                  str_int (cid (msg_chat (cq_message cq))) @ ''|'' @ str_int user_id
                    @ ''|auth_kick'' := None)\<rparr>)"
  using assms(2-) query_callback_result [OF assms(1)]
  by (simp add: query_def Let_def andThen_def restore_member_def except_BadRequest_def
        call_bot_def remove_job_eq returns_def FullChatPermissions_def kick_button_def
        job_key_def)

theorem query_correct_answer_witness:
  "fst (query_callback demo_env (cq_data (press bob ''auth_challenge|7|11|21'')) claimed_world)
     = Inr (7, True, ''Where?'', ''Mondstadt'')
   \<and> uid (cq_from_user (press bob ''auth_challenge|7|11|21'')) = 7
   \<and> raised_by demo_env (AnswerCallbackQuery ''cb'' VerifySuccessToast False) = None
   \<and> raised_by demo_env (RestrictChatMember (- 100) 7
         \<lparr>can_send_messages = Some True, can_send_media_messages = Some True,
          can_send_polls = Some True, can_send_other_messages = Some True,
          can_add_web_page_previews = Some True, can_change_info = Some True,
          can_invite_users = Some True, can_pin_messages = Some True\<rparr>) = None
   \<and> raised_by demo_env (EditMessageText (- 100) 501
         (VerifySuccessText ''Bob'' ''Where?'' ''Mondstadt'')
         (Some [[\<lparr>button_label = KickLabel, callback_data = ''auth_admin|kick|7''\<rparr>]])) = None
   \<and> jobs claimed_world ''-100|7|auth_kick'' = Some bob_kick
   \<and> job_run bob_kick = kick_member_job
   \<and> jobs claimed_world ''-100|7|auth_clean_join_message'' = Some bob_join_cleanup
   \<and> job_run bob_join_cleanup = clean_message_job
   \<and> jobs claimed_world ''-100|8|auth_kick'' = Some carol_kick
   \<and> query demo_env (press bob ''auth_challenge|7|11|21'') claimed_world =
       (Inr (),
        initial_world\<lparr>calls :=
          [AnswerCallbackQuery ''cb'' VerifySuccessToast False,
           RestrictChatMember (- 100) 7
             \<lparr>can_send_messages = Some True, can_send_media_messages = Some True,
              can_send_polls = Some True, can_send_other_messages = Some True,
              can_add_web_page_previews = Some True, can_change_info = Some True,
              can_invite_users = Some True, can_pin_messages = Some True\<rparr>,
           EditMessageText (- 100) 501 (VerifySuccessText ''Bob'' ''Where?'' ''Mondstadt'')
             (Some [[\<lparr>button_label = KickLabel, callback_data = ''auth_admin|kick|7''\<rparr>]])],
          jobs := [''-100|8|auth_kick'' \<mapsto> carol_kick]\<rparr>)"
proof -
  let ?cq = "press bob ''auth_challenge|7|11|21''"
  have id7: "str_int 7 = ''7''" and chat: "str_int (- 100) = ''-100''"
    by (simp_all add: str_int_def digits.simps digit_char_def)
  have h1: "fst (query_callback demo_env (cq_data ?cq) claimed_world)
     = Inr (7, True, ''Where?'', ''Mondstadt'')"
    by (simp add: run_defs demo_defs press_defs)
  have h2: "uid (cq_from_user ?cq) = 7"
    by (simp add: press_def bob_def)
  have j1: "jobs claimed_world ''-100|7|auth_kick'' = Some bob_kick"
    and j2: "jobs claimed_world ''-100|7|auth_clean_join_message'' = Some bob_join_cleanup"
    and j3: "jobs claimed_world ''-100|8|auth_kick'' = Some carol_kick"
    by (simp_all add: claimed_world_def)
  have k1: "job_run bob_kick = kick_member_job" and k2: "job_run bob_join_cleanup = clean_message_job"
    by (simp_all add: bob_kick_def bob_join_cleanup_def)
  have left: "(jobs claimed_world)(''-100|7|auth_clean_join_message'' := None,
      ''-100|7|auth_kick'' := None) = [''-100|8|auth_kick'' \<mapsto> carol_kick]"
    by (rule ext) (simp add: claimed_world_def)
  have h3: "raised_by demo_env (AnswerCallbackQuery ''cb'' VerifySuccessToast False) = None"
    and h4: "raised_by demo_env (RestrictChatMember (- 100) 7
         \<lparr>can_send_messages = Some True, can_send_media_messages = Some True,
          can_send_polls = Some True, can_send_other_messages = Some True,
          can_add_web_page_previews = Some True, can_change_info = Some True,
          can_invite_users = Some True, can_pin_messages = Some True\<rparr>) = None"
    and h5: "raised_by demo_env (EditMessageText (- 100) 501
         (VerifySuccessText ''Bob'' ''Where?'' ''Mondstadt'')
         (Some [[\<lparr>button_label = KickLabel, callback_data = ''auth_admin|kick|7''\<rparr>]])) = None"
    by (simp_all add: demo_env_def)
  have outcome: "query demo_env ?cq claimed_world =
       (Inr (),
        initial_world\<lparr>calls :=
          [AnswerCallbackQuery ''cb'' VerifySuccessToast False,
           RestrictChatMember (- 100) 7
             \<lparr>can_send_messages = Some True, can_send_media_messages = Some True,
              can_send_polls = Some True, can_send_other_messages = Some True,
              can_add_web_page_previews = Some True, can_change_info = Some True,
              can_invite_users = Some True, can_pin_messages = Some True\<rparr>,
           EditMessageText (- 100) 501 (VerifySuccessText ''Bob'' ''Where?'' ''Mondstadt'')
             (Some [[\<lparr>button_label = KickLabel, callback_data = ''auth_admin|kick|7''\<rparr>]])],
          jobs := [''-100|8|auth_kick'' \<mapsto> carol_kick]\<rparr>)"
    using query_correct_answer [of demo_env ?cq claimed_world 7 "''Where?''" "''Mondstadt''"] h1 left
    by (simp add: id7 chat press_def challenge_message_def demo_chat_def bob_def demo_env_def)
      (simp add: claimed_world_def initial_world_def)
  show ?thesis
    by (intro conjI h1 h2 h3 h4 h5 j1 k1 j2 k2 j3 outcome)
qed

text \<open>
  C4. The addressed user presses a wrong answer, and the bot client accepts the three
  calls: the handler bans the user until the second in which the clock was read plus
  120 seconds, edits the message to the failure text with two buttons, one labelled
  "kick" and carrying \<open>auth_admin|kick|\<close> and the user's id, one labelled "unban" and
  carrying \<open>auth_admin|unban|\<close> and the user's id, and leaves no job under the id of
  the kick job of that chat and user. The other jobs stay.
\<close>

theorem query_wrong_answer:
  assumes "fst (query_callback e (cq_data cq) w) = Inr (user_id, False, question, answer)"
    and "uid (cq_from_user cq) = user_id"
    and "raised_by e (AnswerCallbackQuery (cq_id cq) (VerifyFailedAlert 120) True) = None"
    and "raised_by e (BanChatMember (cid (msg_chat (cq_message cq))) user_id
                        (Some (int_of_float (time_at e (clock_reads w)) + 120))) = None"
    and "raised_by e (EditMessageText (cid (msg_chat (cq_message cq))) (message_id (cq_message cq))
           (VerifyFailedText (mention_markdown_v2 e (cq_from_user cq))
              (escape_markdown e question) (escape_markdown e answer))
           (Some [[\<lparr>button_label = KickLabel,
                     callback_data = ''auth_admin|kick|'' @ str_int user_id\<rparr>,
                   \<lparr>button_label = UnbanLabel,
                     callback_data = ''auth_admin|unban|'' @ str_int user_id\<rparr>]])) = None"
  shows "query e cq w =
           (Inr (),
            w\<lparr>calls := calls w @
                 [AnswerCallbackQuery (cq_id cq) (VerifyFailedAlert 120) True,
                  BanChatMember (cid (msg_chat (cq_message cq))) user_id
                    (Some (int_of_float (time_at e (clock_reads w)) + 120)),
                  EditMessageText (cid (msg_chat (cq_message cq))) (message_id (cq_message cq))
                    (VerifyFailedText (mention_markdown_v2 e (cq_from_user cq))
                       (escape_markdown e question) (escape_markdown e answer))
                    (Some [[\<lparr>button_label = KickLabel,
                              callback_data = ''auth_admin|kick|'' @ str_int user_id\<rparr>,
                            \<lparr>button_label = UnbanLabel,
                              callback_data = ''auth_admin|unban|'' @ str_int user_id\<rparr>]])],
              clock_reads := Suc (clock_reads w),
              jobs := (jobs w)
                 (str_int (cid (msg_chat (cq_message cq))) @ ''|'' @ str_int user_id
                    @ ''|auth_kick'' := None)\<rparr>)"
  using assms(2-) query_callback_result [OF assms(1)]
  by (simp add: query_def Let_def andThen_def except_BadRequest_def time_time_def
        call_bot_def remove_job_eq returns_def time_out_def kick_time_def kick_button_def
        unban_button_def job_key_def)

theorem query_wrong_answer_witness:
  "fst (query_callback demo_env (cq_data (press bob ''auth_challenge|7|11|22''))
          (claimed_world\<lparr>clock_reads := 1\<rparr>))
     = Inr (7, False, ''Where?'', ''Liyue'')
   \<and> uid (cq_from_user (press bob ''auth_challenge|7|11|22'')) = 7
   \<and> raised_by demo_env (AnswerCallbackQuery ''cb'' (VerifyFailedAlert 120) True) = None
   \<and> time_at demo_env 1 = 1000.5
   \<and> raised_by demo_env (BanChatMember (- 100) 7 (Some 1120)) = None
   \<and> raised_by demo_env (EditMessageText (- 100) 501
         (VerifyFailedText ''Bob'' ''Where?'' ''Liyue'')
         (Some [[\<lparr>button_label = KickLabel, callback_data = ''auth_admin|kick|7''\<rparr>,
                 \<lparr>button_label = UnbanLabel, callback_data = ''auth_admin|unban|7''\<rparr>]])) = None
   \<and> jobs claimed_world ''-100|7|auth_kick'' = Some bob_kick
   \<and> job_run bob_kick = kick_member_job
   \<and> query demo_env (press bob ''auth_challenge|7|11|22'') (claimed_world\<lparr>clock_reads := 1\<rparr>) =
       (Inr (),
        initial_world\<lparr>calls :=
          [AnswerCallbackQuery ''cb'' (VerifyFailedAlert 120) True,
           BanChatMember (- 100) 7 (Some 1120),
           EditMessageText (- 100) 501 (VerifyFailedText ''Bob'' ''Where?'' ''Liyue'')
             (Some [[\<lparr>button_label = KickLabel, callback_data = ''auth_admin|kick|7''\<rparr>,
                     \<lparr>button_label = UnbanLabel, callback_data = ''auth_admin|unban|7''\<rparr>]])],
          clock_reads := 2,
          jobs := [''-100|7|auth_clean_join_message'' \<mapsto> bob_join_cleanup,
                   ''-100|8|auth_kick'' \<mapsto> carol_kick]\<rparr>)"
proof -
  let ?cq = "press bob ''auth_challenge|7|11|22''"
  let ?w = "claimed_world\<lparr>clock_reads := 1\<rparr>"
  have id7: "str_int 7 = ''7''" and chat: "str_int (- 100) = ''-100''"
    by (simp_all add: str_int_def digits.simps digit_char_def)
  have h1: "fst (query_callback demo_env (cq_data ?cq) ?w) = Inr (7, False, ''Where?'', ''Liyue'')"
    by (simp add: run_defs demo_defs press_defs)
  have h2: "uid (cq_from_user ?cq) = 7"
    by (simp add: press_def bob_def)
  have t: "time_at demo_env 1 = 1000.5"
    by (simp add: demo_env_def)
  have until: "int_of_float (time_at demo_env (clock_reads ?w)) + 120 = 1120"
    by (simp add: int_of_float_def demo_env_def)
  have j1: "jobs claimed_world ''-100|7|auth_kick'' = Some bob_kick"
    by (simp add: claimed_world_def)
  have k1: "job_run bob_kick = kick_member_job"
    by (simp add: bob_kick_def)
  have left: "(jobs ?w)(''-100|7|auth_kick'' := None)
      = [''-100|7|auth_clean_join_message'' \<mapsto> bob_join_cleanup,
         ''-100|8|auth_kick'' \<mapsto> carol_kick]"
    by (rule ext) (simp add: claimed_world_def)
  have h3: "raised_by demo_env (AnswerCallbackQuery ''cb'' (VerifyFailedAlert 120) True) = None"
    and h4: "raised_by demo_env (BanChatMember (- 100) 7 (Some 1120)) = None"
    and h5: "raised_by demo_env (EditMessageText (- 100) 501
         (VerifyFailedText ''Bob'' ''Where?'' ''Liyue'')
         (Some [[\<lparr>button_label = KickLabel, callback_data = ''auth_admin|kick|7''\<rparr>,
                 \<lparr>button_label = UnbanLabel, callback_data = ''auth_admin|unban|7''\<rparr>]])) = None"
    by (simp_all add: demo_env_def)
  have outcome: "query demo_env ?cq ?w =
       (Inr (),
        initial_world\<lparr>calls :=
          [AnswerCallbackQuery ''cb'' (VerifyFailedAlert 120) True,
           BanChatMember (- 100) 7 (Some 1120),
           EditMessageText (- 100) 501 (VerifyFailedText ''Bob'' ''Where?'' ''Liyue'')
             (Some [[\<lparr>button_label = KickLabel, callback_data = ''auth_admin|kick|7''\<rparr>,
                     \<lparr>button_label = UnbanLabel, callback_data = ''auth_admin|unban|7''\<rparr>]])],
          clock_reads := 2,
          jobs := [''-100|7|auth_clean_join_message'' \<mapsto> bob_join_cleanup,
                   ''-100|8|auth_kick'' \<mapsto> carol_kick]\<rparr>)"
    using query_wrong_answer [of demo_env ?cq ?w 7 "''Where?''" "''Liyue''"] h1 left until
    by (simp add: id7 chat press_def challenge_message_def demo_chat_def bob_def demo_env_def)
      (simp add: claimed_world_def initial_world_def)
  show ?thesis
    by (intro conjI h1 h2 h3 t h4 h5 j1 k1 outcome)
qed

section \<open>Presses that are turned away\<close>

lemma fetch_chat_administrators_eq:
  "fetch_chat_administrators e c w =
     (case raised_by e (GetChatAdministrators c) of
        Some err \<Rightarrow> (Inl err, w)
      | None \<Rightarrow>
          (Inr (administrators_of e c),
           w\<lparr>calls := calls w @ [GetChatAdministrators c],
             clock_reads := Suc (clock_reads w),
             chat_administrators_cache := (chat_administrators_cache w)
               (str_int c \<mapsto> (time_at e (clock_reads w), administrators_of e c))\<rparr>))"
  by (simp add: fetch_chat_administrators_def andThen_def time_time_def call_bot_def
        split: option.splits)

lemma fetch_chat_administrators_frame:
  "jobs (snd (fetch_chat_administrators e c w)) = jobs w
   \<and> chat_data (snd (fetch_chat_administrators e c w)) = chat_data w
   \<and> (calls (snd (fetch_chat_administrators e c w)) = calls w
        \<or> calls (snd (fetch_chat_administrators e c w)) = calls w @ [GetChatAdministrators c])"
  by (simp add: fetch_chat_administrators_eq split: option.splits)

lemma get_chat_administrators_frame:
  "jobs (snd (get_chat_administrators e c w)) = jobs w
   \<and> chat_data (snd (get_chat_administrators e c w)) = chat_data w
   \<and> (calls (snd (get_chat_administrators e c w)) = calls w
        \<or> calls (snd (get_chat_administrators e c w)) = calls w @ [GetChatAdministrators c])"
proof (cases "chat_administrators_cache w (str_int c)")
  case None
  then have "get_chat_administrators e c w = fetch_chat_administrators e c w"
    by (simp add: get_chat_administrators_def)
  then show ?thesis using fetch_chat_administrators_frame [of e c w] by simp
next
  case (Some entry)
  obtain t l where entry: "entry = (t, l)" by (cases entry)
  let ?w = "w\<lparr>clock_reads := Suc (clock_reads w)\<rparr>"
  show ?thesis
  proof (cases "float_add e t 360 \<le> time_at e (clock_reads w)")
    case True
    with Some entry have "get_chat_administrators e c w = (Inr l, ?w)"
      by (simp add: get_chat_administrators_def andThen_def time_time_def returns_def)
    then show ?thesis by simp
  next
    case False
    with Some entry have "get_chat_administrators e c w = fetch_chat_administrators e c ?w"
      by (simp add: get_chat_administrators_def andThen_def time_time_def)
    then show ?thesis using fetch_chat_administrators_frame [of e c ?w] by simp
  qed
qed

text \<open>
  C6, as stated, fails. The cache serves an entry that lists Carol, who is no
  administrator of the chat according to the bot client. Carol presses the admin
  button "kick" for Bob: the handler bans Bob, edits the message and removes Bob's
  kick job.
\<close>

theorem admin_stale_cache_counterexample:
  "\<not> is_admin (administrators_of demo_env (- 100)) (uid carol)
   \<and> jobs stale_world ''-100|7|auth_kick'' = Some bob_kick
   \<and> admin demo_env (press carol ''auth_admin|kick|7'') stale_world
       = (Inr (),
          initial_world\<lparr>calls := [GetChatMember (- 100) 7,
                                   AnswerCallbackQuery ''cb'' KickToast False,
                                   BanChatMember (- 100) 7 None,
                                   EditMessageText (- 100) 501
                                     (AdminKickedText ''member'' ''Carol'') None],
            chat_administrators_cache := [''-100'' \<mapsto> (640, [\<lparr>cm_user = carol\<rparr>])],
            clock_reads := 1\<rparr>)"
proof -
  have served: "get_chat_administrators demo_env (- 100) stale_world
      = (Inr [\<lparr>cm_user = carol\<rparr>], stale_world\<lparr>clock_reads := 1\<rparr>)"
    by (simp add: get_chat_administrators_def andThen_def time_time_def returns_def
          demo_defs stale_world_def double_add_640)
  have parsed: "admin_callback demo_env ''auth_admin|kick|7'' (stale_world\<lparr>clock_reads := 1\<rparr>)
      = (Inr (''kick'', 7), stale_world\<lparr>clock_reads := 1\<rparr>)"
    by (simp add: run_defs demo_defs)
  have key: "job_key (- 100) 7 ''auth_kick'' = ''-100|7|auth_kick''"
    by (simp add: job_key_def str_int_def digits.simps digit_char_def)
  have "admin demo_env (press carol ''auth_admin|kick|7'') stale_world
      = (Inr (),
         stale_world\<lparr>clock_reads := 1,
           calls := [GetChatMember (- 100) 7,
                     AnswerCallbackQuery ''cb'' KickToast False,
                     BanChatMember (- 100) 7 None,
                     EditMessageText (- 100) 501 (AdminKickedText ''member'' ''Carol'') None],
           jobs := (jobs stale_world)(''-100|7|auth_kick'' := None)\<rparr>)"
    using served parsed
    by (simp add: admin_def Let_def andThen_def except_BadRequest_def call_bot_def returns_def
          remove_job_eq is_admin_def key press_def challenge_message_def demo_chat_def
          carol_def demo_env_def)
      (simp add: stale_world_def initial_world_def)
  then show ?thesis
    by (simp add: stale_world_def initial_world_def is_admin_def demo_env_def alice_def carol_def)
qed

text \<open>
  C6, amended. A press of an admin button by a user who is not in the administrator
  list that \<open>get_chat_administrators\<close> returns for the chat, be it the cached list or
  the fetched one: the handler makes one call after the lookup, the alert "you are not
  an administrator", and returns what that call returns; the jobs and the chat data
  stay as they were, and the lookup added at most its own fetch to the calls. A press
  of a quiz button by a user other than the addressed one: the handler makes the one
  call of the alert "this is not your verification" and changes nothing else.
\<close>

theorem rejected_presses:
  "(fst (get_chat_administrators e (cid (msg_chat (cq_message cq))) w) = Inr chat_administrators
      \<and> \<not> is_admin chat_administrators (uid (cq_from_user cq))
    \<longrightarrow> admin e cq w
          = call_bot e (AnswerCallbackQuery (cq_id cq) NotAdminAlert True)
              (snd (get_chat_administrators e (cid (msg_chat (cq_message cq))) w))
        \<and> calls (snd (admin e cq w))
          = calls (snd (get_chat_administrators e (cid (msg_chat (cq_message cq))) w))
            @ (case raised_by e (AnswerCallbackQuery (cq_id cq) NotAdminAlert True) of
                 None \<Rightarrow> [AnswerCallbackQuery (cq_id cq) NotAdminAlert True]
               | Some err \<Rightarrow> [])
        \<and> (calls (snd (get_chat_administrators e (cid (msg_chat (cq_message cq))) w)) = calls w
            \<or> calls (snd (get_chat_administrators e (cid (msg_chat (cq_message cq))) w))
                = calls w @ [GetChatAdministrators (cid (msg_chat (cq_message cq)))])
        \<and> jobs (snd (admin e cq w)) = jobs w
        \<and> chat_data (snd (admin e cq w)) = chat_data w)
 \<and> (fst (query_callback e (cq_data cq) w) = Inr (user_id, result, question, answer)
      \<and> uid (cq_from_user cq) \<noteq> user_id
    \<longrightarrow> query e cq w
          = (case raised_by e (AnswerCallbackQuery (cq_id cq) NotYourVerificationAlert True) of
               None \<Rightarrow> (Inr (), w\<lparr>calls := calls w
                           @ [AnswerCallbackQuery (cq_id cq) NotYourVerificationAlert True]\<rparr>)
             | Some err \<Rightarrow> (Inl err, w)))"
proof (intro conjI impI)
  assume a: "fst (get_chat_administrators e (cid (msg_chat (cq_message cq))) w) = Inr chat_administrators
      \<and> \<not> is_admin chat_administrators (uid (cq_from_user cq))"
  let ?c = "cid (msg_chat (cq_message cq))"
  let ?w1 = "snd (get_chat_administrators e ?c w)"
  let ?A = "AnswerCallbackQuery (cq_id cq) NotAdminAlert True"
  obtain r w1 where g: "get_chat_administrators e ?c w = (r, w1)"
    by (cases "get_chat_administrators e ?c w")
  with a have r: "r = Inr chat_administrators" by simp
  from a g r show eq: "admin e cq w = call_bot e ?A ?w1"
    by (simp add: admin_def Let_def andThen_def)
  show "calls (snd (admin e cq w)) = calls ?w1 @ (case raised_by e ?A of None \<Rightarrow> [?A] | Some err \<Rightarrow> [])"
    by (simp add: eq call_bot_def split: option.splits)
  show "calls ?w1 = calls w \<or> calls ?w1 = calls w @ [GetChatAdministrators ?c]"
    using get_chat_administrators_frame [of e ?c w] by simp
  show "jobs (snd (admin e cq w)) = jobs w"
    using get_chat_administrators_frame [of e ?c w]
    by (simp add: eq call_bot_def split: option.splits)
  show "chat_data (snd (admin e cq w)) = chat_data w"
    using get_chat_administrators_frame [of e ?c w]
    by (simp add: eq call_bot_def split: option.splits)
next
  assume b: "fst (query_callback e (cq_data cq) w) = Inr (user_id, result, question, answer)
      \<and> uid (cq_from_user cq) \<noteq> user_id"
  then have "query_callback e (cq_data cq) w = (Inr (user_id, result, question, answer), w)"
    by (intro query_callback_result) simp
  with b show "query e cq w
          = (case raised_by e (AnswerCallbackQuery (cq_id cq) NotYourVerificationAlert True) of
               None \<Rightarrow> (Inr (), w\<lparr>calls := calls w
                           @ [AnswerCallbackQuery (cq_id cq) NotYourVerificationAlert True]\<rparr>)
             | Some err \<Rightarrow> (Inl err, w))"
    by (simp add: query_def Let_def andThen_def call_bot_def)
qed


theorem rejected_presses_witness:
  "(fst (get_chat_administrators demo_env
           (cid (msg_chat (cq_message (press carol ''auth_admin|kick|7'')))) pending_world)
      = Inr [\<lparr>cm_user = alice\<rparr>]
    \<and> \<not> is_admin [\<lparr>cm_user = alice\<rparr>] (uid (cq_from_user (press carol ''auth_admin|kick|7'')))
    \<and> admin demo_env (press carol ''auth_admin|kick|7'') pending_world
        = (Inr (),
           pending_world\<lparr>calls := [GetChatAdministrators (- 100),
                                    AnswerCallbackQuery ''cb'' NotAdminAlert True],
             clock_reads := 1,
             chat_administrators_cache := [''-100'' \<mapsto> (1000, [\<lparr>cm_user = alice\<rparr>])]\<rparr>)
    \<and> jobs (snd (admin demo_env (press carol ''auth_admin|kick|7'') pending_world))
        = jobs pending_world)
 \<and> (fst (query_callback demo_env (cq_data (press carol ''auth_challenge|7|11|21'')) pending_world)
      = Inr (7, True, ''Where?'', ''Mondstadt'')
    \<and> uid (cq_from_user (press carol ''auth_challenge|7|11|21'')) \<noteq> 7
    \<and> query demo_env (press carol ''auth_challenge|7|11|21'') pending_world
        = (Inr (), pending_world\<lparr>calls := [AnswerCallbackQuery ''cb'' NotYourVerificationAlert True]\<rparr>))"
proof -
  let ?w1 = "pending_world\<lparr>calls := [GetChatAdministrators (- 100)], clock_reads := 1,
           chat_administrators_cache := [''-100'' \<mapsto> (1000, [\<lparr>cm_user = alice\<rparr>])]\<rparr>"
  let ?kick = "press carol ''auth_admin|kick|7''"
  let ?answer = "press carol ''auth_challenge|7|11|21''"
  have fetched: "get_chat_administrators demo_env (cid (msg_chat (cq_message ?kick))) pending_world
      = (Inr [\<lparr>cm_user = alice\<rparr>], ?w1)"
    by (simp add: run_defs demo_defs press_defs)
  then have a1: "fst (get_chat_administrators demo_env (cid (msg_chat (cq_message ?kick)))
      pending_world) = Inr [\<lparr>cm_user = alice\<rparr>]"
    by simp
  have a2: "\<not> is_admin [\<lparr>cm_user = alice\<rparr>] (uid (cq_from_user ?kick))"
    by (simp add: is_admin_def press_def alice_def carol_def)
  note a = rejected_presses [of demo_env ?kick pending_world "[\<lparr>cm_user = alice\<rparr>]",
      THEN conjunct1, THEN mp, OF conjI [OF a1 a2]]
  have a3: "admin demo_env ?kick pending_world
        = (Inr (),
           pending_world\<lparr>calls := [GetChatAdministrators (- 100),
                                    AnswerCallbackQuery ''cb'' NotAdminAlert True],
             clock_reads := 1,
             chat_administrators_cache := [''-100'' \<mapsto> (1000, [\<lparr>cm_user = alice\<rparr>])]\<rparr>)"
  proof -
    have "admin demo_env ?kick pending_world
        = call_bot demo_env (AnswerCallbackQuery (cq_id ?kick) NotAdminAlert True) ?w1"
      using a [THEN conjunct1] by (simp add: fetched)
    also have "\<dots> = (Inr (), ?w1\<lparr>calls := calls ?w1 @ [AnswerCallbackQuery ''cb'' NotAdminAlert True]\<rparr>)"
      by (simp add: call_bot_def demo_env_def press_def)
    finally show ?thesis by simp
  qed
  have a4: "jobs (snd (admin demo_env ?kick pending_world)) = jobs pending_world"
    by (rule a [THEN conjunct2, THEN conjunct2, THEN conjunct2, THEN conjunct1])
  have b1: "fst (query_callback demo_env (cq_data ?answer) pending_world)
      = Inr (7, True, ''Where?'', ''Mondstadt'')"
    by (simp add: run_defs demo_defs press_defs)
  have b2: "uid (cq_from_user ?answer) \<noteq> 7"
    by (simp add: press_def carol_def)
  have b3: "query demo_env ?answer pending_world
        = (Inr (), pending_world\<lparr>calls := [AnswerCallbackQuery ''cb'' NotYourVerificationAlert True]\<rparr>)"
    using rejected_presses [of demo_env ?answer pending_world _ 7 True "''Where?''" "''Mondstadt''",
      THEN conjunct2, THEN mp, OF conjI [OF b1 b2]]
    by (simp add: demo_env_def press_def pending_world_def initial_world_def)
  show ?thesis
    by (intro conjI a1 a2 a3 a4 b1 b2 b3)
qed

section \<open>An unknown admin action\<close>

text \<open>
  C10, as stated, fails. The cache serves an entry that lists Carol and not Alice, who
  is the administrator of the chat according to the bot client. Alice presses a button
  with the action "mute": the handler answers that she is no administrator, sends no
  notice, and Bob's kick job stays.
\<close>

theorem admin_unknown_action_stale_cache_counterexample:
  "is_admin (administrators_of demo_env (- 100)) (uid alice)
   \<and> admin demo_env (press alice ''auth_admin|mute|7'') stale_world
       = (Inr (),
          stale_world\<lparr>calls := [AnswerCallbackQuery ''cb'' NotAdminAlert True],
            clock_reads := 1\<rparr>)
   \<and> jobs (snd (admin demo_env (press alice ''auth_admin|mute|7'') stale_world))
         ''-100|7|auth_kick'' = Some bob_kick"
proof -
  have served: "get_chat_administrators demo_env (- 100) stale_world
      = (Inr [\<lparr>cm_user = carol\<rparr>], stale_world\<lparr>clock_reads := 1\<rparr>)"
    by (simp add: get_chat_administrators_def andThen_def time_time_def returns_def
          demo_defs stale_world_def double_add_640)
  have turned_away: "admin demo_env (press alice ''auth_admin|mute|7'') stale_world
      = (Inr (),
         stale_world\<lparr>calls := [AnswerCallbackQuery ''cb'' NotAdminAlert True],
           clock_reads := 1\<rparr>)"
    using served
    by (simp add: admin_def Let_def andThen_def call_bot_def is_admin_def press_def
          challenge_message_def demo_chat_def alice_def carol_def demo_env_def)
      (simp add: stale_world_def initial_world_def)
  show ?thesis
    unfolding turned_away
    by (simp add: stale_world_def is_admin_def demo_env_def alice_def)
qed

text \<open>
  C10, amended. A user who is in the administrator list that
  \<open>get_chat_administrators\<close> returns for the chat presses a button whose action is
  none of "pass", "kick" and "unban", and \<open>get_chat_member\<close> and \<open>send_message\<close> do not
  end the handler: the handler sends the notice of a wrong message to the chat and
  then removes the job under the id of the kick job of that chat and user, if there
  is one. The other jobs stay.
\<close>

theorem admin_unknown_action:
  assumes "get_chat_administrators e (cid (msg_chat (cq_message cq))) w = (Inr chat_administrators, w1)"
    and "is_admin chat_administrators (uid (cq_from_user cq))"
    and "fst (admin_callback e (cq_data cq) w1) = Inr (result, user_id)"
    and "result \<noteq> ''pass''" and "result \<noteq> ''kick''" and "result \<noteq> ''unban''"
    and "returned_or_BadRequest (raised_by e (GetChatMember (cid (msg_chat (cq_message cq))) user_id))"
    and "raised_by e (SendMessage (cid (msg_chat (cq_message cq))) WrongMessageNotice) = None"
  shows "admin e cq w =
           (Inr (),
            w1\<lparr>calls := calls w1
                 @ (if raised_by e (GetChatMember (cid (msg_chat (cq_message cq))) user_id) = None
                    then [GetChatMember (cid (msg_chat (cq_message cq))) user_id] else [])
                 @ [SendMessage (cid (msg_chat (cq_message cq))) WrongMessageNotice],
               jobs := (jobs w)
                 (str_int (cid (msg_chat (cq_message cq))) @ ''|'' @ str_int user_id
                    @ ''|auth_kick'' := None)\<rparr>)"
proof -
  let ?c = "cid (msg_chat (cq_message cq))"
  have j: "jobs w1 = jobs w"
    using get_chat_administrators_frame [of e ?c w] assms(1) by simp
  note p = admin_callback_result [OF assms(3)]
  show ?thesis
  proof (cases "raised_by e (GetChatMember ?c user_id)")
    case None
    with assms(1,2,4-6,8) p j show ?thesis
      by (simp add: admin_def Let_def andThen_def except_BadRequest_def call_bot_def
            remove_job_eq returns_def job_key_def)
  next
    case (Some err)
    with assms(7) obtain s where "err = BadRequest s"
      by (cases err) (simp_all add: returned_or_BadRequest_def)
    with Some assms(1,2,4-6,8) p j show ?thesis
      by (simp add: admin_def Let_def andThen_def except_BadRequest_def call_bot_def
            remove_job_eq returns_def job_key_def)
  qed
qed

theorem admin_unknown_action_witness:
  "get_chat_administrators demo_env (cid (msg_chat (cq_message (press alice ''auth_admin|mute|7''))))
       claimed_world
     = (Inr [\<lparr>cm_user = alice\<rparr>],
        claimed_world\<lparr>calls := [GetChatAdministrators (- 100)], clock_reads := 1,
          chat_administrators_cache := [''-100'' \<mapsto> (1000, [\<lparr>cm_user = alice\<rparr>])]\<rparr>)
   \<and> is_admin [\<lparr>cm_user = alice\<rparr>] (uid (cq_from_user (press alice ''auth_admin|mute|7'')))
   \<and> fst (admin_callback demo_env (cq_data (press alice ''auth_admin|mute|7''))
            (claimed_world\<lparr>calls := [GetChatAdministrators (- 100)], clock_reads := 1,
               chat_administrators_cache := [''-100'' \<mapsto> (1000, [\<lparr>cm_user = alice\<rparr>])]\<rparr>))
       = Inr (''mute'', 7)
   \<and> ''mute'' \<noteq> ''pass'' \<and> ''mute'' \<noteq> ''kick'' \<and> ''mute'' \<noteq> ''unban''
   \<and> returned_or_BadRequest (raised_by demo_env (GetChatMember (- 100) 7))
   \<and> raised_by demo_env (SendMessage (- 100) WrongMessageNotice) = None
   \<and> jobs claimed_world ''-100|7|auth_kick'' = Some bob_kick
   \<and> job_run bob_kick = kick_member_job
   \<and> admin demo_env (press alice ''auth_admin|mute|7'') claimed_world
       = (Inr (),
          initial_world\<lparr>calls := [GetChatAdministrators (- 100), GetChatMember (- 100) 7,
                                   SendMessage (- 100) WrongMessageNotice],
            clock_reads := 1,
            chat_administrators_cache := [''-100'' \<mapsto> (1000, [\<lparr>cm_user = alice\<rparr>])],
            jobs := [''-100|7|auth_clean_join_message'' \<mapsto> bob_join_cleanup,
                     ''-100|8|auth_kick'' \<mapsto> carol_kick]\<rparr>)"
proof -
  let ?mute = "press alice ''auth_admin|mute|7''"
  let ?w1 = "claimed_world\<lparr>calls := [GetChatAdministrators (- 100)], clock_reads := 1,
          chat_administrators_cache := [''-100'' \<mapsto> (1000, [\<lparr>cm_user = alice\<rparr>])]\<rparr>"
  have h1: "get_chat_administrators demo_env (cid (msg_chat (cq_message ?mute))) claimed_world
      = (Inr [\<lparr>cm_user = alice\<rparr>], ?w1)"
    by (simp add: run_defs demo_defs press_defs claimed_world_def)
  have h2: "is_admin [\<lparr>cm_user = alice\<rparr>] (uid (cq_from_user ?mute))"
    by (simp add: is_admin_def press_def alice_def)
  have h3: "fst (admin_callback demo_env (cq_data ?mute) ?w1) = Inr (''mute'', 7)"
    by (simp add: run_defs demo_defs press_defs)
  have h4: "''mute'' \<noteq> ''pass''" and h5: "''mute'' \<noteq> ''kick''" and h6: "''mute'' \<noteq> ''unban''"
    by simp_all
  have h7: "returned_or_BadRequest (raised_by demo_env (GetChatMember (- 100) 7))"
    by (simp add: returned_or_BadRequest_def demo_env_def)
  have h8: "raised_by demo_env (SendMessage (- 100) WrongMessageNotice) = None"
    by (simp add: demo_env_def)
  have c: "cid (msg_chat (cq_message ?mute)) = - 100"
    by (simp add: press_defs demo_chat_def)
  have j1: "jobs claimed_world ''-100|7|auth_kick'' = Some bob_kick"
    by (simp add: claimed_world_def)
  have k1: "job_run bob_kick = kick_member_job"
    by (simp add: bob_kick_def)
  have left: "(jobs claimed_world)(''-100|7|auth_kick'' := None)
      = [''-100|7|auth_clean_join_message'' \<mapsto> bob_join_cleanup,
         ''-100|8|auth_kick'' \<mapsto> carol_kick]"
    by (rule ext) (simp add: claimed_world_def)
  have id7: "str_int 7 = ''7''" and chat: "str_int (- 100) = ''-100''"
    by (simp_all add: str_int_def digits.simps digit_char_def)
  have outcome: "admin demo_env ?mute claimed_world
       = (Inr (),
          initial_world\<lparr>calls := [GetChatAdministrators (- 100), GetChatMember (- 100) 7,
                                   SendMessage (- 100) WrongMessageNotice],
            clock_reads := 1,
            chat_administrators_cache := [''-100'' \<mapsto> (1000, [\<lparr>cm_user = alice\<rparr>])],
            jobs := [''-100|7|auth_clean_join_message'' \<mapsto> bob_join_cleanup,
                     ''-100|8|auth_kick'' \<mapsto> carol_kick]\<rparr>)"
    using admin_unknown_action [OF h1 h2 h3 h4 h5 h6 h7 [folded c] h8 [folded c]] left
    by (simp add: c id7 chat demo_env_def)
      (simp add: claimed_world_def initial_world_def)
  show ?thesis
    by (intro conjI h1 h2 h3 h4 h5 h6 h7 h8 j1 k1 outcome)
qed

section \<open>The new-member handler\<close>

lemma send_challenge_one_job:
  assumes "py_index question_ids (random_index e 0 (int (length question_ids))) = Inr chosen"
    and "raised_by e (challenge_call e message user chosen) = None"
  shows "send_challenge e message user question_ids w =
           (Inr (),
            w\<lparr>calls := calls w @ [challenge_call e message user chosen],
              jobs := (jobs w)
                (job_key (cid (msg_chat message)) (uid user) ''auth_kick''
                   \<mapsto> question_cleanup e message user (challenge_call e message user chosen))\<rparr>)"
  using assms
  by (simp add: send_challenge_def Let_def andThen_def except_BadRequest_def call_bot_def
        run_once_def challenge_call_def question_cleanup_def)

lemma refresh_quiz_frame:
  "calls (snd (refresh_quiz e w)) = calls w
   \<and> jobs (snd (refresh_quiz e w)) = jobs w
   \<and> chat_data (snd (refresh_quiz e w)) = chat_data w"
  by (simp add: refresh_quiz_def andThen_def quiz_service_refresh_quiz_def split: option.splits)

lemma challenge_members_one:
  assumes "\<not> is_bot user"
    and "py_index (question_id_list e) (random_index e 0 (int (length (question_id_list e))))
           = Inr chosen"
    and "raised_by e (RestrictChatMember (cid (msg_chat m)) (uid user) ReadOnlyChatPermissions) = None"
    and "raised_by e (challenge_call e m user chosen) = None"
  shows "challenge_members e m [user] w =
           (Inr (),
            w\<lparr>calls := calls w
                 @ [RestrictChatMember (cid (msg_chat m)) (uid user) ReadOnlyChatPermissions,
                    challenge_call e m user chosen],
              jobs := (jobs w)
                (job_key (cid (msg_chat m)) (uid user) ''auth_kick''
                   \<mapsto> question_cleanup e m user (challenge_call e m user chosen))\<rparr>)"
proof -
  let ?w = "w\<lparr>calls := calls w
      @ [RestrictChatMember (cid (msg_chat m)) (uid user) ReadOnlyChatPermissions]\<rparr>"
  from assms(2) have some: "length (question_id_list e) \<noteq> 0"
    by (auto simp: py_index_def split: if_splits)
  have restricted: "restrict_member e m user w = (Inr True, ?w)"
    using assms(3)
    by (simp add: restrict_member_def except_BadRequest_def andThen_def call_bot_def returns_def)
  show ?thesis
    using assms(1) some restricted send_challenge_one_job [OF assms(2) assms(4), of ?w]
    by (simp add: andThen_def returns_def)
qed

lemma new_mem_reaches_members:
  assumes "refresh_quiz e w = (Inr (), w0)"
    and "\<not> list_ex (\<lambda>user. uid user = bot_id e) (new_chat_members m)"
    and "\<not> not_enough_rights (cid (msg_chat m)) w0"
    and "get_chat_administrators e (cid (msg_chat m)) w0 = (Inr chat_administrators, w1)"
    and "\<not> is_admin chat_administrators (uid (from_user m))"
  shows "new_mem e m w = challenge_members e m (new_chat_members m) w1"
  using assms by (simp add: new_mem_def andThen_def)

lemma new_mem_demo_reaches:
  assumes "raised_by e (GetChatAdministrators (- 100)) = None"
    and "quiz_refresh_raises e 0 = None"
    and "administrators_of e (- 100) = [\<lparr>cm_user = alice\<rparr>]"
    and "time_at e 0 = 1000"
    and "cid (msg_chat m) = - 100" and "from_user m = bob" and "new_chat_members m = [u]"
    and "uid u \<noteq> bot_id e"
  shows "new_mem e m initial_world =
           challenge_members e m [u]
             (initial_world\<lparr>calls := [GetChatAdministrators (- 100)],
                chat_administrators_cache := [''-100'' \<mapsto> (1000, [\<lparr>cm_user = alice\<rparr>])],
                is_refresh_quiz := True, quiz_refresh_calls := 1, clock_reads := 1\<rparr>)"
proof -
  let ?w0 = "initial_world\<lparr>is_refresh_quiz := True, quiz_refresh_calls := 1\<rparr>"
  let ?w1 = "initial_world\<lparr>calls := [GetChatAdministrators (- 100)],
                chat_administrators_cache := [''-100'' \<mapsto> (1000, [\<lparr>cm_user = alice\<rparr>])],
                is_refresh_quiz := True, quiz_refresh_calls := 1, clock_reads := 1\<rparr>"
  have refreshed: "refresh_quiz e initial_world = (Inr (), ?w0)"
    using assms(2)
    by (simp add: refresh_quiz_def andThen_def quiz_service_refresh_quiz_def initial_world_def)
  have nobot: "\<not> list_ex (\<lambda>user. uid user = bot_id e) (new_chat_members m)"
    using assms(7,8) by simp
  have unflagged: "\<not> not_enough_rights (cid (msg_chat m)) ?w0"
    by (simp add: not_enough_rights_def initial_world_def)
  have fetched: "get_chat_administrators e (cid (msg_chat m)) ?w0 = (Inr [\<lparr>cm_user = alice\<rparr>], ?w1)"
    using assms(1,3,4,5)
    by (simp add: get_chat_administrators_def fetch_chat_administrators_eq initial_world_def
          str_int_def digits.simps digit_char_def)
  have stranger: "\<not> is_admin [\<lparr>cm_user = alice\<rparr>] (uid (from_user m))"
    using assms(6) by (simp add: is_admin_def alice_def bob_def)
  show ?thesis
    using new_mem_reaches_members [OF refreshed nobot unflagged fetched stranger] assms(7)
    by simp
qed

lemma challenge_call_demo_join:
  "challenge_call demo_env demo_join bob 11 =
     ReplyMarkdownV2 (- 100) 40 (ChallengeText ''Where?'' 120)
       [[\<lparr>button_label = AnswerLabel ''Liyue'', callback_data = ''auth_challenge|7|11|22''\<rparr>],
        [\<lparr>button_label = AnswerLabel ''Mondstadt'', callback_data = ''auth_challenge|7|11|21''\<rparr>],
        [\<lparr>button_label = PassLabel, callback_data = ''auth_admin|pass|7''\<rparr>,
         \<lparr>button_label = KickLabel, callback_data = ''auth_admin|kick|7''\<rparr>]]"
  by (simp add: challenge_call_def answer_button_def pass_button_def kick_button_def
        time_out_def demo_defs)

lemma new_mem_demo_join:
  "new_mem demo_env demo_join initial_world =
     (Inr (),
      initial_world\<lparr>calls := [GetChatAdministrators (- 100),
                               RestrictChatMember (- 100) 7 ReadOnlyChatPermissions,
                               challenge_call demo_env demo_join bob 11],
        jobs := [''-100|7|auth_kick'' \<mapsto> pending_job],
        chat_administrators_cache := [''-100'' \<mapsto> (1000, [\<lparr>cm_user = alice\<rparr>])],
        is_refresh_quiz := True, quiz_refresh_calls := 1, clock_reads := 1\<rparr>)"
proof -
  have reach: "new_mem demo_env demo_join initial_world =
      challenge_members demo_env demo_join [bob]
        (initial_world\<lparr>calls := [GetChatAdministrators (- 100)],
           chat_administrators_cache := [''-100'' \<mapsto> (1000, [\<lparr>cm_user = alice\<rparr>])],
           is_refresh_quiz := True, quiz_refresh_calls := 1, clock_reads := 1\<rparr>)"
    by (rule new_mem_demo_reaches) (simp_all add: demo_defs)
  have human: "\<not> is_bot bob"
    by (simp add: bob_def)
  have chosen: "py_index (question_id_list demo_env)
      (random_index demo_env 0 (int (length (question_id_list demo_env)))) = Inr 11"
    by (simp add: py_index_def demo_env_def)
  have r: "raised_by demo_env
      (RestrictChatMember (cid (msg_chat demo_join)) (uid bob) ReadOnlyChatPermissions) = None"
    by (simp add: demo_env_def)
  have c: "raised_by demo_env (challenge_call demo_env demo_join bob 11) = None"
    by (simp add: demo_env_def)
  show ?thesis
    unfolding reach challenge_members_one [OF human chosen r c]
    by (simp add: question_cleanup_def pending_job_def job_key_def time_out_def demo_defs)
qed

lemma new_mem_admin_join:
  "new_mem demo_env admin_join initial_world =
     (Inr (),
      initial_world\<lparr>calls := [GetChatAdministrators (- 100),
                               RestrictChatMember (- 100) 1 ReadOnlyChatPermissions,
                               challenge_call demo_env admin_join alice 11],
        jobs := [''-100|1|auth_kick''
                   \<mapsto> question_cleanup demo_env admin_join alice
                        (challenge_call demo_env admin_join alice 11)],
        chat_administrators_cache := [''-100'' \<mapsto> (1000, [\<lparr>cm_user = alice\<rparr>])],
        is_refresh_quiz := True, quiz_refresh_calls := 1, clock_reads := 1\<rparr>)"
proof -
  have reach: "new_mem demo_env admin_join initial_world =
      challenge_members demo_env admin_join [alice]
        (initial_world\<lparr>calls := [GetChatAdministrators (- 100)],
           chat_administrators_cache := [''-100'' \<mapsto> (1000, [\<lparr>cm_user = alice\<rparr>])],
           is_refresh_quiz := True, quiz_refresh_calls := 1, clock_reads := 1\<rparr>)"
    by (rule new_mem_demo_reaches) (simp_all add: demo_defs admin_join_def)
  have human: "\<not> is_bot alice"
    by (simp add: alice_def)
  have chosen: "py_index (question_id_list demo_env)
      (random_index demo_env 0 (int (length (question_id_list demo_env)))) = Inr 11"
    by (simp add: py_index_def demo_env_def)
  have r: "raised_by demo_env
      (RestrictChatMember (cid (msg_chat admin_join)) (uid alice) ReadOnlyChatPermissions) = None"
    by (simp add: demo_env_def)
  have c: "raised_by demo_env (challenge_call demo_env admin_join alice 11) = None"
    by (simp add: demo_env_def)
  have k: "job_key (- 100) 1 ''auth_kick'' = ''-100|1|auth_kick''"
    by (simp add: job_key_def str_int_def digits.simps digit_char_def)
  have ids: "cid (msg_chat admin_join) = - 100" "uid alice = 1"
    by (simp_all add: admin_join_def demo_chat_def alice_def)
  show ?thesis
    unfolding reach challenge_members_one [OF human chosen r c] ids k
    by (simp add: initial_world_def)
qed

lemma new_mem_admin_join_refused:
  "new_mem strict_env admin_join initial_world =
     (Inl (BadRequest ''Bad Request: user is an administrator of the chat''),
      initial_world\<lparr>calls := [GetChatAdministrators (- 100)],
        chat_administrators_cache := [''-100'' \<mapsto> (1000, [\<lparr>cm_user = alice\<rparr>])],
        is_refresh_quiz := True, quiz_refresh_calls := 1, clock_reads := 1\<rparr>)"
proof -
  have reach: "new_mem strict_env admin_join initial_world =
      challenge_members strict_env admin_join [alice]
        (initial_world\<lparr>calls := [GetChatAdministrators (- 100)],
           chat_administrators_cache := [''-100'' \<mapsto> (1000, [\<lparr>cm_user = alice\<rparr>])],
           is_refresh_quiz := True, quiz_refresh_calls := 1, clock_reads := 1\<rparr>)"
    by (rule new_mem_demo_reaches) (simp_all add: strict_env_def demo_defs admin_join_def)
  show ?thesis
    unfolding reach
    by (simp add: restrict_member_def except_BadRequest_def andThen_def call_bot_def raises_def
          strict_env_def demo_env_def admin_join_def demo_chat_def alice_def)
qed


text \<open>
  C1. Bob joins the concrete chat; the bot client accepts every call and the
  chat has one question. The handler calls \<open>run_once\<close> three times, with three job names
  and one job id, \<open>-100|7|auth_kick\<close>, replacing the job under that id each time. When the
  handler returns, the scheduler holds one job: the cleanup of the question message.
  The kick job and the cleanup of the join message are gone, and no job has the id
  \<open>-100|7|auth_clean_join_message\<close> that \<open>query\<close> and \<open>admin\<close> look for.
\<close>

theorem new_mem_jobs_share_one_id:
  "fst (new_mem demo_env demo_join initial_world) = Inr ()
   \<and> jobs (snd (new_mem demo_env demo_join initial_world)) = [''-100|7|auth_kick'' \<mapsto> pending_job]
   \<and> job_run pending_job = clean_message_job
   \<and> job_name pending_job = ''-100|7|auth_clean_question_message''
   \<and> job_data pending_job = Some 501"
  by (simp add: new_mem_demo_join pending_job_def)

text \<open>
  C5, as stated, fails. Bob, who is no administrator, adds the administrator Alice.
  With a bot client that accepts every call the handler restricts Alice, sends her the
  challenge and schedules a job; with a bot client that refuses to restrict an
  administrator the handler raises. In neither run is the auto-pass notice sent.
\<close>

theorem new_mem_admin_joins_counterexample:
  "new_chat_members admin_join = [alice]
   \<and> is_admin (administrators_of demo_env (cid (msg_chat admin_join))) (uid alice)
   \<and> calls (snd (new_mem demo_env admin_join initial_world))
       = [GetChatAdministrators (- 100),
          RestrictChatMember (- 100) 1
            \<lparr>can_send_messages = Some False, can_send_media_messages = None,
             can_send_polls = None, can_send_other_messages = None,
             can_add_web_page_previews = None, can_change_info = None,
             can_invite_users = None, can_pin_messages = None\<rparr>,
          challenge_call demo_env admin_join alice 11]
   \<and> jobs (snd (new_mem demo_env admin_join initial_world)) ''-100|1|auth_kick''
       = Some (question_cleanup demo_env admin_join alice
                 (challenge_call demo_env admin_join alice 11))
   \<and> fst (new_mem strict_env admin_join initial_world)
       = Inl (BadRequest ''Bad Request: user is an administrator of the chat'')
   \<and> calls (snd (new_mem strict_env admin_join initial_world)) = [GetChatAdministrators (- 100)]"
  by (simp add: new_mem_admin_join new_mem_admin_join_refused)
    (simp add: admin_join_def is_admin_def demo_env_def ReadOnlyChatPermissions_def)

text \<open>
  C5, amended. The handler looks for the sender of the update, \<open>message.from_user\<close>,
  in the administrator list that \<open>get_chat_administrators\<close> returns for the chat, be
  it the cached list or the fetched one; the new members are not looked for. When the
  sender is in that list, the bot itself is not among the new members, the chat's
  \<open>not_enough_rights\<close> flag is not set, and the quiz refresh and the administrator
  lookup return, the handler makes one more call, the reply with the auto-pass notice,
  and returns what that call returns: no member is restricted, no challenge is sent,
  the jobs and the chat data stay as they were.
\<close>

theorem new_mem_admin_invite:
  assumes "fst (refresh_quiz e w) = Inr ()"
    and "\<not> list_ex (\<lambda>user. uid user = bot_id e) (new_chat_members m)"
    and "\<not> not_enough_rights (cid (msg_chat m)) w"
    and "get_chat_administrators e (cid (msg_chat m)) (snd (refresh_quiz e w))
           = (Inr chat_administrators, w1)"
    and "is_admin chat_administrators (uid (from_user m))"
  shows "new_mem e m w = call_bot e (ReplyText (cid (msg_chat m)) (message_id m) AdminInviteNotice) w1
       \<and> calls (snd (new_mem e m w))
          = calls w1 @ (case raised_by e (ReplyText (cid (msg_chat m)) (message_id m) AdminInviteNotice) of
                          None \<Rightarrow> [ReplyText (cid (msg_chat m)) (message_id m) AdminInviteNotice]
                        | Some err \<Rightarrow> [])
       \<and> (calls w1 = calls w \<or> calls w1 = calls w @ [GetChatAdministrators (cid (msg_chat m))])
       \<and> jobs (snd (new_mem e m w)) = jobs w
       \<and> chat_data (snd (new_mem e m w)) = chat_data w"
proof -
  let ?c = "cid (msg_chat m)"
  let ?R = "ReplyText ?c (message_id m) AdminInviteNotice"
  obtain r w0 where rq: "refresh_quiz e w = (r, w0)" by (cases "refresh_quiz e w")
  with assms(1) have r: "r = Inr ()" by simp
  from refresh_quiz_frame [of e w] rq
  have f0: "calls w0 = calls w" "jobs w0 = jobs w" "chat_data w0 = chat_data w" by simp_all
  from assms(3) f0 have unflagged: "\<not> not_enough_rights ?c w0"
    by (simp add: not_enough_rights_def)
  from assms(4) rq have g: "get_chat_administrators e ?c w0 = (Inr chat_administrators, w1)"
    by simp
  from get_chat_administrators_frame [of e ?c w0] g f0
  have f1: "jobs w1 = jobs w" "chat_data w1 = chat_data w"
    "calls w1 = calls w \<or> calls w1 = calls w @ [GetChatAdministrators ?c]"
    by simp_all
  have eq: "new_mem e m w = call_bot e ?R w1"
    using rq r assms(2,5) unflagged g by (simp add: new_mem_def andThen_def)
  show ?thesis
    using f1 by (simp add: eq call_bot_def split: option.splits)
qed

theorem new_mem_admin_invite_witness:
  "fst (refresh_quiz demo_env initial_world) = Inr ()
   \<and> \<not> list_ex (\<lambda>user. uid user = bot_id demo_env) (new_chat_members invited_join)
   \<and> \<not> not_enough_rights (cid (msg_chat invited_join)) initial_world
   \<and> get_chat_administrators demo_env (cid (msg_chat invited_join))
         (snd (refresh_quiz demo_env initial_world))
       = (Inr [\<lparr>cm_user = alice\<rparr>],
          initial_world\<lparr>calls := [GetChatAdministrators (- 100)],
            chat_administrators_cache := [''-100'' \<mapsto> (1000, [\<lparr>cm_user = alice\<rparr>])],
            is_refresh_quiz := True, quiz_refresh_calls := 1, clock_reads := 1\<rparr>)
   \<and> is_admin [\<lparr>cm_user = alice\<rparr>] (uid (from_user invited_join))
   \<and> new_mem demo_env invited_join initial_world
       = (Inr (),
          initial_world\<lparr>calls := [GetChatAdministrators (- 100),
                                   ReplyText (- 100) 42 AdminInviteNotice],
            chat_administrators_cache := [''-100'' \<mapsto> (1000, [\<lparr>cm_user = alice\<rparr>])],
            is_refresh_quiz := True, quiz_refresh_calls := 1, clock_reads := 1\<rparr>)"
proof -
  let ?w1 = "initial_world\<lparr>calls := [GetChatAdministrators (- 100)],
            chat_administrators_cache := [''-100'' \<mapsto> (1000, [\<lparr>cm_user = alice\<rparr>])],
            is_refresh_quiz := True, quiz_refresh_calls := 1, clock_reads := 1\<rparr>"
  have refreshed: "refresh_quiz demo_env initial_world
      = (Inr (), initial_world\<lparr>is_refresh_quiz := True, quiz_refresh_calls := 1\<rparr>)"
    by (simp add: refresh_quiz_def andThen_def quiz_service_refresh_quiz_def demo_env_def
          initial_world_def)
  then have h1: "fst (refresh_quiz demo_env initial_world) = Inr ()"
    by simp
  have h2: "\<not> list_ex (\<lambda>user. uid user = bot_id demo_env) (new_chat_members invited_join)"
    by (simp add: invited_join_def bob_def demo_env_def)
  have h3: "\<not> not_enough_rights (cid (msg_chat invited_join)) initial_world"
    by (simp add: not_enough_rights_def initial_world_def)
  have h4: "get_chat_administrators demo_env (cid (msg_chat invited_join))
      (snd (refresh_quiz demo_env initial_world)) = (Inr [\<lparr>cm_user = alice\<rparr>], ?w1)"
    unfolding refreshed by (simp add: run_defs demo_defs invited_join_def)
  have h5: "is_admin [\<lparr>cm_user = alice\<rparr>] (uid (from_user invited_join))"
    by (simp add: is_admin_def invited_join_def)
  have "new_mem demo_env invited_join initial_world
      = call_bot demo_env
          (ReplyText (cid (msg_chat invited_join)) (message_id invited_join) AdminInviteNotice) ?w1"
    by (rule new_mem_admin_invite [OF h1 h2 h3 h4 h5, THEN conjunct1])
  also have "\<dots> = (Inr (), ?w1\<lparr>calls := calls ?w1 @ [ReplyText (- 100) 42 AdminInviteNotice]\<rparr>)"
    by (simp add: call_bot_def demo_env_def invited_join_def demo_chat_def)
  finally have h6: "new_mem demo_env invited_join initial_world
       = (Inr (),
          initial_world\<lparr>calls := [GetChatAdministrators (- 100),
                                   ReplyText (- 100) 42 AdminInviteNotice],
            chat_administrators_cache := [''-100'' \<mapsto> (1000, [\<lparr>cm_user = alice\<rparr>])],
            is_refresh_quiz := True, quiz_refresh_calls := 1, clock_reads := 1\<rparr>)"
    by (simp add: initial_world_def)
  show ?thesis
    by (intro conjI h1 h2 h3 h4 h5 h6)
qed


lemma challenge_members_skips_bots:
  "list_all is_bot skipped \<Longrightarrow>
   challenge_members e m (skipped @ users) = challenge_members e m users"
  by (induction skipped) simp_all

lemma challenge_members_not_enough_rights:
  assumes "\<not> is_bot user" and "question_id_list e \<noteq> []"
    and "raised_by e (RestrictChatMember (cid (msg_chat m)) (uid user) ReadOnlyChatPermissions)
           = Some (BadRequest err)"
    and "str_contains ''Not enough rights'' err"
  shows "challenge_members e m (user # rest) w =
           (Inr (),
            w\<lparr>chat_data := (chat_data w)
                 (cid (msg_chat m) :=
                    (chat_data w (cid (msg_chat m)))(''not_enough_rights'' \<mapsto> True))\<rparr>)"
  using assms
  by (simp add: restrict_member_def except_BadRequest_def andThen_def call_bot_def returns_def)

text \<open>
  C7. The first new member who is not a bot cannot be restricted, the bot client
  raising a \<open>BadRequest\<close> whose text contains "Not enough rights": the handler sets
  \<open>not_enough_rights\<close> in the chat data of the chat and returns; it has made no call
  besides the administrator lookup and scheduled no job. And whenever the flag of the
  chat is set, the handler does what \<open>refresh_quiz\<close> does and nothing more: no call, no
  job, no change of the chat data.
\<close>

theorem new_mem_not_enough_rights:
  "(fst (refresh_quiz e w) = Inr ()
      \<and> \<not> list_ex (\<lambda>user. uid user = bot_id e) (new_chat_members m)
      \<and> \<not> not_enough_rights (cid (msg_chat m)) w
      \<and> get_chat_administrators e (cid (msg_chat m)) (snd (refresh_quiz e w))
           = (Inr chat_administrators, w1)
      \<and> \<not> is_admin chat_administrators (uid (from_user m))
      \<and> new_chat_members m = skipped @ user # rest
      \<and> list_all is_bot skipped \<and> \<not> is_bot user
      \<and> question_id_list e \<noteq> []
      \<and> raised_by e (RestrictChatMember (cid (msg_chat m)) (uid user) ReadOnlyChatPermissions)
           = Some (BadRequest err)
      \<and> str_contains ''Not enough rights'' err
    \<longrightarrow> new_mem e m w
          = (Inr (),
             w1\<lparr>chat_data := (chat_data w1)
                  (cid (msg_chat m) :=
                     (chat_data w1 (cid (msg_chat m)))(''not_enough_rights'' \<mapsto> True))\<rparr>)
        \<and> not_enough_rights (cid (msg_chat m)) (snd (new_mem e m w))
        \<and> jobs (snd (new_mem e m w)) = jobs w
        \<and> (calls (snd (new_mem e m w)) = calls w
            \<or> calls (snd (new_mem e m w)) = calls w @ [GetChatAdministrators (cid (msg_chat m))]))
 \<and> (not_enough_rights (cid (msg_chat m)) w
    \<longrightarrow> new_mem e m w = refresh_quiz e w
        \<and> calls (snd (new_mem e m w)) = calls w
        \<and> jobs (snd (new_mem e m w)) = jobs w
        \<and> chat_data (snd (new_mem e m w)) = chat_data w)"
proof (intro conjI impI)
  let ?c = "cid (msg_chat m)"
  assume a: "fst (refresh_quiz e w) = Inr ()
      \<and> \<not> list_ex (\<lambda>user. uid user = bot_id e) (new_chat_members m)
      \<and> \<not> not_enough_rights ?c w
      \<and> get_chat_administrators e ?c (snd (refresh_quiz e w)) = (Inr chat_administrators, w1)
      \<and> \<not> is_admin chat_administrators (uid (from_user m))
      \<and> new_chat_members m = skipped @ user # rest
      \<and> list_all is_bot skipped \<and> \<not> is_bot user
      \<and> question_id_list e \<noteq> []
      \<and> raised_by e (RestrictChatMember ?c (uid user) ReadOnlyChatPermissions)
           = Some (BadRequest err)
      \<and> str_contains ''Not enough rights'' err"
  obtain r w0 where rq: "refresh_quiz e w = (r, w0)" by (cases "refresh_quiz e w")
  with a have r: "r = Inr ()" by simp
  from refresh_quiz_frame [of e w] rq
  have f0: "calls w0 = calls w" "jobs w0 = jobs w" "chat_data w0 = chat_data w" by simp_all
  from a f0 have unflagged: "\<not> not_enough_rights ?c w0"
    by (simp add: not_enough_rights_def)
  from a rq have g: "get_chat_administrators e ?c w0 = (Inr chat_administrators, w1)"
    by simp
  from get_chat_administrators_frame [of e ?c w0] g f0
  have f1: "jobs w1 = jobs w"
    "calls w1 = calls w \<or> calls w1 = calls w @ [GetChatAdministrators ?c]"
    by simp_all
  from a have nobot: "\<not> list_ex (\<lambda>user. uid user = bot_id e) (new_chat_members m)"
    and stranger: "\<not> is_admin chat_administrators (uid (from_user m))"
    by blast+
  from rq r have rq': "refresh_quiz e w = (Inr (), w0)" by simp
  have reach: "new_mem e m w = challenge_members e m (new_chat_members m) w1"
    by (rule new_mem_reaches_members [OF rq' nobot unflagged g stranger])
  have loop: "challenge_members e m (new_chat_members m) w1
      = (Inr (), w1\<lparr>chat_data := (chat_data w1)
                  (?c := (chat_data w1 ?c)(''not_enough_rights'' \<mapsto> True))\<rparr>)"
    using a challenge_members_skips_bots [of skipped e m "user # rest"]
      challenge_members_not_enough_rights [of user e m err rest w1]
    by simp
  show eq: "new_mem e m w
      = (Inr (), w1\<lparr>chat_data := (chat_data w1)
                  (?c := (chat_data w1 ?c)(''not_enough_rights'' \<mapsto> True))\<rparr>)"
    by (simp add: reach loop)
  show "not_enough_rights ?c (snd (new_mem e m w))"
    by (simp add: eq not_enough_rights_def)
  show "jobs (snd (new_mem e m w)) = jobs w"
    by (simp add: eq f1)
  show "calls (snd (new_mem e m w)) = calls w
      \<or> calls (snd (new_mem e m w)) = calls w @ [GetChatAdministrators ?c]"
    using f1(2) by (simp add: eq)
next
  assume flagged: "not_enough_rights (cid (msg_chat m)) w"
  obtain r w0 where rq: "refresh_quiz e w = (r, w0)" by (cases "refresh_quiz e w")
  from refresh_quiz_frame [of e w] rq
  have f0: "calls w0 = calls w" "jobs w0 = jobs w" "chat_data w0 = chat_data w" by simp_all
  from flagged f0 have flagged0: "not_enough_rights (cid (msg_chat m)) w0"
    by (simp add: not_enough_rights_def)
  show eq: "new_mem e m w = refresh_quiz e w"
    using rq flagged0
    by (cases r) (simp_all add: new_mem_def andThen_def returns_def)
  show "calls (snd (new_mem e m w)) = calls w"
    by (simp add: eq refresh_quiz_frame)
  show "jobs (snd (new_mem e m w)) = jobs w"
    by (simp add: eq refresh_quiz_frame)
  show "chat_data (snd (new_mem e m w)) = chat_data w"
    by (simp add: eq refresh_quiz_frame)
qed

theorem new_mem_not_enough_rights_witness:
  "(fst (refresh_quiz powerless_env initial_world) = Inr ()
    \<and> \<not> list_ex (\<lambda>user. uid user = bot_id powerless_env) (new_chat_members demo_join)
    \<and> \<not> not_enough_rights (cid (msg_chat demo_join)) initial_world
    \<and> get_chat_administrators powerless_env (cid (msg_chat demo_join))
          (snd (refresh_quiz powerless_env initial_world))
        = (Inr [\<lparr>cm_user = alice\<rparr>],
           initial_world\<lparr>calls := [GetChatAdministrators (- 100)],
             chat_administrators_cache := [''-100'' \<mapsto> (1000, [\<lparr>cm_user = alice\<rparr>])],
             is_refresh_quiz := True, quiz_refresh_calls := 1, clock_reads := 1\<rparr>)
    \<and> \<not> is_admin [\<lparr>cm_user = alice\<rparr>] (uid (from_user demo_join))
    \<and> new_chat_members demo_join = [] @ bob # []
    \<and> list_all is_bot [] \<and> \<not> is_bot bob
    \<and> question_id_list powerless_env \<noteq> []
    \<and> raised_by powerless_env
          (RestrictChatMember (cid (msg_chat demo_join)) (uid bob) ReadOnlyChatPermissions)
        = Some (BadRequest ''Bad Request: Not enough rights to restrict/unrestrict chat member'')
    \<and> str_contains ''Not enough rights''
          ''Bad Request: Not enough rights to restrict/unrestrict chat member''
    \<and> new_mem powerless_env demo_join initial_world
        = (Inr (),
           initial_world\<lparr>calls := [GetChatAdministrators (- 100)],
             chat_data := (\<lambda>_. Map.empty)(- 100 := [''not_enough_rights'' \<mapsto> True]),
             chat_administrators_cache := [''-100'' \<mapsto> (1000, [\<lparr>cm_user = alice\<rparr>])],
             is_refresh_quiz := True, quiz_refresh_calls := 1, clock_reads := 1\<rparr>))
 \<and> (not_enough_rights (cid (msg_chat demo_join)) flagged_world
    \<and> new_mem demo_env demo_join flagged_world
        = (Inr (), flagged_world\<lparr>is_refresh_quiz := True, quiz_refresh_calls := 1\<rparr>)
    \<and> calls (snd (new_mem demo_env demo_join flagged_world)) = []
    \<and> jobs (snd (new_mem demo_env demo_join flagged_world)) = Map.empty)"
proof -
  let ?w1 = "initial_world\<lparr>calls := [GetChatAdministrators (- 100)],
             chat_administrators_cache := [''-100'' \<mapsto> (1000, [\<lparr>cm_user = alice\<rparr>])],
             is_refresh_quiz := True, quiz_refresh_calls := 1, clock_reads := 1\<rparr>"
  let ?err = "''Bad Request: Not enough rights to restrict/unrestrict chat member''"
  have refreshed: "refresh_quiz powerless_env initial_world
      = (Inr (), initial_world\<lparr>is_refresh_quiz := True, quiz_refresh_calls := 1\<rparr>)"
    by (simp add: refresh_quiz_def andThen_def quiz_service_refresh_quiz_def powerless_env_def
          demo_env_def initial_world_def)
  then have h1: "fst (refresh_quiz powerless_env initial_world) = Inr ()"
    by simp
  have h2: "\<not> list_ex (\<lambda>user. uid user = bot_id powerless_env) (new_chat_members demo_join)"
    by (simp add: demo_join_def bob_def powerless_env_def demo_env_def)
  have h3: "\<not> not_enough_rights (cid (msg_chat demo_join)) initial_world"
    by (simp add: not_enough_rights_def initial_world_def)
  have h4: "get_chat_administrators powerless_env (cid (msg_chat demo_join))
      (snd (refresh_quiz powerless_env initial_world)) = (Inr [\<lparr>cm_user = alice\<rparr>], ?w1)"
    unfolding refreshed by (simp add: run_defs powerless_env_def demo_defs)
  have h5: "\<not> is_admin [\<lparr>cm_user = alice\<rparr>] (uid (from_user demo_join))"
    by (simp add: is_admin_def demo_join_def alice_def bob_def)
  have h6: "new_chat_members demo_join = [] @ bob # []"
    by (simp add: demo_join_def)
  have h7: "list_all is_bot []" and h8: "\<not> is_bot bob"
    by (simp_all add: bob_def)
  have h9: "question_id_list powerless_env \<noteq> []"
    by (simp add: powerless_env_def demo_env_def)
  have h10: "raised_by powerless_env
      (RestrictChatMember (cid (msg_chat demo_join)) (uid bob) ReadOnlyChatPermissions)
      = Some (BadRequest ?err)"
    by (simp add: powerless_env_def demo_join_def demo_chat_def bob_def)
  have h11: "str_contains ''Not enough rights'' ?err"
    by simp
  note first = new_mem_not_enough_rights [of powerless_env initial_world demo_join
      "[\<lparr>cm_user = alice\<rparr>]" ?w1 "[]" bob "[]" ?err, THEN conjunct1, THEN mp,
      OF conjI [OF h1 conjI [OF h2 conjI [OF h3 conjI [OF h4 conjI [OF h5 conjI [OF h6
        conjI [OF h7 conjI [OF h8 conjI [OF h9 conjI [OF h10 h11]]]]]]]]]]]
  have h12: "new_mem powerless_env demo_join initial_world
        = (Inr (),
           initial_world\<lparr>calls := [GetChatAdministrators (- 100)],
             chat_data := (\<lambda>_. Map.empty)(- 100 := [''not_enough_rights'' \<mapsto> True]),
             chat_administrators_cache := [''-100'' \<mapsto> (1000, [\<lparr>cm_user = alice\<rparr>])],
             is_refresh_quiz := True, quiz_refresh_calls := 1, clock_reads := 1\<rparr>)"
    unfolding first [THEN conjunct1]
    by (simp add: initial_world_def demo_join_def demo_chat_def)
  have g1: "not_enough_rights (cid (msg_chat demo_join)) flagged_world"
    by (simp add: not_enough_rights_def flagged_world_def demo_join_def demo_chat_def)
  note second = new_mem_not_enough_rights [of demo_env flagged_world demo_join,
      THEN conjunct2, THEN mp, OF g1]
  have "new_mem demo_env demo_join flagged_world = refresh_quiz demo_env flagged_world"
    by (rule second [THEN conjunct1])
  also have "\<dots> = (Inr (), flagged_world\<lparr>is_refresh_quiz := True, quiz_refresh_calls := 1\<rparr>)"
    by (simp add: refresh_quiz_def andThen_def quiz_service_refresh_quiz_def demo_env_def
          flagged_world_def initial_world_def)
  finally have g2: "new_mem demo_env demo_join flagged_world
      = (Inr (), flagged_world\<lparr>is_refresh_quiz := True, quiz_refresh_calls := 1\<rparr>)" .
  have g3: "calls (snd (new_mem demo_env demo_join flagged_world)) = []"
    unfolding g2 by (simp add: flagged_world_def initial_world_def)
  have g4: "jobs (snd (new_mem demo_env demo_join flagged_world)) = Map.empty"
    unfolding g2 by (simp add: flagged_world_def initial_world_def)
  show ?thesis
    by (intro conjI h1 h2 h3 h4 h5 h6 h7 h8 h9 h10 h11 h12 g1 g2 g3 g4)
qed

section \<open>The preview cache\<close>

text \<open>
  What \<open>cache.py\<close> itself decides. \<open>get_data\<close> returns \<open>None\<close> for a key the store does
  not hold. \<open>set_data\<close> leaves the compressed bytes under the namespaced key when the
  time to live is positive or is \<open>-1\<close>; with another time to live the store deletes
  the key at once. \<open>get_data\<close> reads the bytes under the same key and hands them to
  \<open>gzip.decompress\<close> and then to \<open>pickle.loads\<close>. Whether those two undo
  \<open>pickle.dumps\<close> and \<open>gzip.compress\<close> is a matter of the two modules.
\<close>

lemma get_data_absent:
  "entries r (cache_key key) = None \<Longrightarrow> get_data c key r = Inr None"
  by (simp add: get_data_def client_get_def)

lemma set_data_stores:
  assumes "pickle_dumps c v = Inr raw" and "ttl = - 1 \<or> 0 < ttl"
  shows "fst (set_data c key v ttl r) = Inr ()"
    and "entries (snd (set_data c key v ttl r)) (cache_key key) = Some (gzip_compress c raw)"
  using assms
  by (auto simp: set_data_def client_set_def client_expire_def Let_def)

lemma set_data_deleted_at_once:
  assumes "pickle_dumps c v = Inr raw" and "ttl \<le> 0" and "ttl \<noteq> - 1"
  shows "entries (snd (set_data c key v ttl r)) (cache_key key) = None"
  using assms
  by (simp add: set_data_def client_set_def client_expire_def Let_def)

lemma get_data_reads:
  assumes "entries r (cache_key key) = Some data" and "data \<noteq> []"
  shows "get_data c key r =
           (case gzip_decompress c data of
              Inl err \<Rightarrow> Inl err
            | Inr raw \<Rightarrow> (case pickle_loads c raw of Inl err \<Rightarrow> Inl err | Inr v \<Rightarrow> Inr (Some v)))"
  using assms by (simp add: get_data_def client_get_def)

end
